theory Spec2Isabelle
  imports Main "HOL-Library.Sublist" "HOL-Library.Product_Lexorder" "HOL-Library.Multiset"
begin

section \<open>Python strings\<close>

text \<open>
  A Python \<^verbatim>\<open>str\<close> is a sequence of Unicode code points; \<^verbatim>\<open>len\<close>,
  slicing, \<^verbatim>\<open>startswith\<close> and \<^verbatim>\<open>strip\<close> all count code points. A string is
  therefore a list of code points, and a literal of the source is written
  \<open>S ''...''\<close>. The newline is code point 10 and the double quote is 34.
\<close>

type_synonym pystr = "nat list"

definition S :: "string \<Rightarrow> pystr" where
  "S cs = map of_char cs"

definition NL :: pystr where
  "NL = [10]"

text \<open>
  \<^verbatim>\<open>str.strip()\<close> without an argument removes the code points for which
  \<^verbatim>\<open>str.isspace\<close> holds, from both ends.
\<close>

definition py_isspace :: "nat \<Rightarrow> bool" where
  "py_isspace c =
     ((9 \<le> c \<and> c \<le> 13) \<or> (28 \<le> c \<and> c \<le> 32) \<or> c = 133 \<or> c = 160 \<or> c = 5760
      \<or> (8192 \<le> c \<and> c \<le> 8202) \<or> c = 8232 \<or> c = 8233 \<or> c = 8239 \<or> c = 8287
      \<or> c = 12288)"

definition strip :: "pystr \<Rightarrow> pystr" where
  "strip s = rev (dropWhile py_isspace (rev (dropWhile py_isspace s)))"

definition startswith :: "pystr \<Rightarrow> pystr \<Rightarrow> bool" where
  "startswith s p = prefix p s"

text \<open>\<^verbatim>\<open>s.split("\n")\<close>: the pieces between the separators, never an empty list.\<close>

fun split_on :: "nat \<Rightarrow> pystr \<Rightarrow> pystr list" where
  "split_on sep [] = [[]]"
| "split_on sep (c # cs) =
     (if c = sep then [] # split_on sep cs
      else (case split_on sep cs of
              [] \<Rightarrow> [[c]]
            | w # ws \<Rightarrow> (c # w) # ws))"

text \<open>\<^verbatim>\<open>sep.join(parts)\<close>.\<close>

fun join :: "pystr \<Rightarrow> pystr list \<Rightarrow> pystr" where
  "join sep [] = []"
| "join sep [p] = p"
| "join sep (p # q # ps) = p @ sep @ join sep (q # ps)"

text \<open>
  \<^verbatim>\<open>s.replace(old, new)\<close>: every non-overlapping occurrence, left to right. When
  \<open>old\<close> is a prefix of \<open>c # cs\<close> and not empty, what follows the occurrence is
  \<open>drop (length old - 1) cs\<close>.
\<close>

fun py_replace :: "pystr \<Rightarrow> pystr \<Rightarrow> pystr \<Rightarrow> pystr" where
  "py_replace old new [] = (if old = [] then new else [])"
| "py_replace old new (c # cs) =
     (if old = [] then new @ c # py_replace old new cs
      else if prefix old (c # cs) then new @ py_replace old new (drop (length old - 1) cs)
      else c # py_replace old new cs)"

text \<open>
  \<^verbatim>\<open>re.sub(r'\n\s*\n', '\n', s)\<close>: a newline, the longest run of whitespace after it
  that still ends in a newline, replaced by one newline. \<open>\s\<close> is the whitespace of
  \<open>py_isspace\<close>; the run is greedy, so the match ends at the last newline of the
  whitespace that follows.
\<close>

fun re_sub_blank_lines :: "pystr \<Rightarrow> pystr" where
  "re_sub_blank_lines [] = []"
| "re_sub_blank_lines (c # cs) =
     (if c = 10 \<and> 10 \<in> set (takeWhile py_isspace cs)
      then 10 # re_sub_blank_lines
             (drop (length (dropWhile (\<lambda>x. x \<noteq> 10) (rev (takeWhile py_isspace cs)))) cs)
      else c # re_sub_blank_lines cs)"

text \<open>\<^verbatim>\<open>str(n)\<close> of a natural number, as the f-strings format it: decimal digits.\<close>

fun str_nat :: "nat \<Rightarrow> pystr" where
  "str_nat n = (if n < 10 then [48 + n] else str_nat (n div 10) @ [48 + n mod 10])"

declare str_nat.simps [simp del]

text \<open>\<^verbatim>\<open>d.get(key, default)\<close> on a dictionary given as its items.\<close>

definition dict_get :: "('k \<times> 'v) list \<Rightarrow> 'k \<Rightarrow> 'v \<Rightarrow> 'v" where
  "dict_get d k dflt = (case map_of d k of None \<Rightarrow> dflt | Some v \<Rightarrow> v)"

definition ERROR_PREFIX :: pystr where
  "ERROR_PREFIX = S ''__ERROR__::''"

section \<open>Language tables and the DeepL code helpers\<close>

definition DeepL_languages :: "(pystr \<times> pystr) list" where
  "DeepL_languages =
     [(S ''Turkish'', S ''TR''), (S ''German'', S ''DE''), (S ''French'', S ''FR''),
      (S ''Spanish'', S ''ES''), (S ''Italian'', S ''IT''), (S ''Portuguese'', S ''PT-PT''),
      (S ''Dutch'', S ''NL''), (S ''Polish'', S ''PL''), (S ''Russian'', S ''RU''),
      (S ''Japanese'', S ''JA''), (S ''Chinese (simplified)'', S ''ZH''),
      (S ''English'', S ''EN-GB''), (S ''English-GB'', S ''EN-GB''),
      (S ''English-US'', S ''EN-US'')]"

definition LLM_languages :: "(pystr \<times> pystr) list" where
  "LLM_languages =
     [(S ''Turkish'', S ''Turkish''), (S ''German'', S ''German''), (S ''French'', S ''French''),
      (S ''Spanish'', S ''Spanish''), (S ''Italian'', S ''Italian''),
      (S ''Portuguese'', S ''Portuguese''), (S ''Dutch'', S ''Dutch''),
      (S ''Polish'', S ''Polish''), (S ''Russian'', S ''Russian''),
      (S ''Japanese'', S ''Japanese''), (S ''Chinese'', S ''Chinese''),
      (S ''English'', S ''English'')]"

definition supported_languages :: "(pystr \<times> (pystr \<times> pystr) list) list" where
  "supported_languages =
     [(S ''DeepL'', DeepL_languages), (S ''OpenAI'', LLM_languages),
      (S ''DeepSeek'', LLM_languages)]"

definition style_options :: "(pystr \<times> pystr) list" where
  "style_options =
     [(S ''Simple English'', S ''in simple and clear English''),
      (S ''Business English'', S ''in professional business English''),
      (S ''Casual English'', S ''in casual conversational English'')]"

definition get_deepl_source_code :: "pystr \<Rightarrow> pystr" where
  "get_deepl_source_code lang =
     (let code = dict_get (dict_get supported_languages (S ''DeepL'') []) lang lang in
      if code \<in> set [S ''EN-GB'', S ''EN-US''] then S ''EN''
      else if code = S ''PT-PT'' then S ''PT''
      else code)"

definition get_deepl_target_code :: "pystr \<Rightarrow> pystr" where
  "get_deepl_target_code lang =
     (let code = dict_get (dict_get supported_languages (S ''DeepL'') []) lang lang in code)"

section \<open>History store\<close>

text \<open>
  A history entry is the dictionary with the six keys the program writes and reads.
\<close>

record entry =
  time :: pystr
  original :: pystr
  translated :: pystr
  rephrased :: pystr
  provider :: pystr
  target_language :: pystr

text \<open>
  What the program shows or hands to a collaborator, in the order it happens: dialogs,
  the rewrite of the history file, the text boxes, and the calls that reach a provider.
\<close>

datatype box_kind = ShowInfo | ShowWarning | ShowError

datatype effect =
    MessageBox box_kind pystr pystr
  | SaveHistoryXml "entry list"
  | UpdateTextboxes pystr pystr pystr
  | UpdateRephraseBox pystr
  | UpdateButtonStates bool
  | TranslateText pystr pystr pystr
  | AskAiPrompt pystr
  | AskAiDeepL pystr pystr pystr

text \<open>
  A naive \<^verbatim>\<open>datetime\<close> of second precision, compared field by field (year first).
\<close>

type_synonym datetime = "nat \<times> nat \<times> nat \<times> nat \<times> nat \<times> nat"

text \<open>
  \<^verbatim>\<open>history_data.sort(key=lambda x: datetime.strptime(x.get("time", ...), FMT), reverse=True)\<close>
  inside \<^verbatim>\<open>try ... except ValueError\<close>. The library's parser is the parameter
  \<open>strptime\<close> (\<open>None\<close> where it raises \<^verbatim>\<open>ValueError\<close>). The keys are computed before
  anything moves, so a key that fails leaves the list as it was. A reversed sort is
  the stable sort of the reversed list, reversed.
\<close>

definition sort_history_data :: "(pystr \<Rightarrow> datetime option) \<Rightarrow> entry list \<Rightarrow> entry list" where
  "sort_history_data strptime history =
     (case those (map (\<lambda>x. strptime (time x)) history) of
        None \<Rightarrow> history
      | Some keys \<Rightarrow> map snd (rev (sort_key fst (rev (zip keys history)))))"

text \<open>
  The file a user picks in \<^verbatim>\<open>prompt_and_load_history\<close>: its path (empty when the
  dialog was cancelled), its base name, and what reading it gives. A parsed document is
  its root tag and the root's children; a child is its tag and its own children, each
  a tag with its text (\<open>None\<close> for an element without text).
\<close>

type_synonym xml_item = "pystr \<times> (pystr \<times> pystr option) list"

datatype file_content =
    FileMissing
  | XmlParseError pystr
  | ReadFailure pystr
  | Document pystr "xml_item list"

record chosen_file =
  filepath :: pystr
  basename :: pystr
  content :: file_content

definition required_fields :: "pystr list" where
  "required_fields =
     [S ''time'', S ''provider'', S ''original'', S ''translated'', S ''rephrased'',
      S ''target_language'']"

text \<open>
  One \<^verbatim>\<open><item>\<close> of the file: every required field is the text of the first child
  with that tag, or the empty string. \<open>time\<close> is read first, and an item without
  one is skipped.
\<close>

definition field_text :: "(pystr \<times> pystr option) list \<Rightarrow> pystr \<Rightarrow> pystr" where
  "field_text children field =
     (case map_of children field of
        Some (Some t) \<Rightarrow> t
      | _ \<Rightarrow> [])"

definition load_item :: "(pystr \<times> pystr option) list \<Rightarrow> entry option" where
  "load_item children =
     (if field_text children (S ''time'') = [] then None
      else Some \<lparr> time = field_text children (S ''time''),
                  original = field_text children (S ''original''),
                  translated = field_text children (S ''translated''),
                  rephrased = field_text children (S ''rephrased''),
                  provider = field_text children (S ''provider''),
                  target_language = field_text children (S ''target_language'') \<rparr>)"

definition load_history_from_path :: "chosen_file \<Rightarrow> bool \<times> pystr \<times> entry list" where
  "load_history_from_path f =
     (if filepath f = [] then (False, S ''No file path provided.'', [])
      else (case content f of
        FileMissing \<Rightarrow> (False, S ''File not found:'' @ NL @ basename f, [])
      | XmlParseError e \<Rightarrow>
          (False, S ''Error parsing XML file '' @ [39] @ basename f @ [39] @ S '': '' @ e, [])
      | ReadFailure e \<Rightarrow> (False, S ''An unexpected error occurred:'' @ NL @ e, [])
      | Document root_tag children \<Rightarrow>
          (if root_tag \<noteq> S ''history''
           then (False, S ''Invalid root tag '' @ [39] @ root_tag @ [39] @ S '' in file '' @ [39]
                        @ basename f @ [39] @ S ''. Expected '' @ [39] @ S ''history'' @ [39]
                        @ S ''.'', [])
           else (let loaded_entries =
                       List.map_filter (\<lambda>item. load_item (snd item))
                         (filter (\<lambda>item. fst item = S ''item'') children)
                 in (True, S ''Read '' @ str_nat (length loaded_entries)
                            @ S '' valid entries from'' @ NL @ basename f, loaded_entries)))))"

text \<open>
  The merge of \<^verbatim>\<open>prompt_and_load_history\<close>, from \<^verbatim>\<open>if success:\<close> on: given the
  in-memory list, the list after the call and the effects of the call. The refresh of
  an open history window is not part of the model.
\<close>

definition merge_loaded ::
  "(pystr \<Rightarrow> datetime option) \<Rightarrow> pystr \<Rightarrow> entry list \<Rightarrow> entry list \<Rightarrow> entry list \<times> effect list" where
  "merge_loaded strptime base loaded_entries history =
     (if loaded_entries = []
      then (history, [MessageBox ShowInfo (S ''Load History'')
                        (S ''No valid history entries found in'' @ NL @ base)])
      else
        (let existing_times = set (filter (\<lambda>t. t \<noteq> []) (map time history));
             unique_new_entries = filter (\<lambda>e. time e \<notin> existing_times) loaded_entries
         in if unique_new_entries = []
            then (history, [MessageBox ShowInfo (S ''History Merge'')
                    (S ''All '' @ str_nat (length loaded_entries) @ S '' entries from'' @ NL @ base
                     @ NL @ S ''already exist in the current history.'')])
            else
              (let merged = sort_history_data strptime (history @ unique_new_entries)
               in (merged,
                   [SaveHistoryXml merged,
                    MessageBox ShowInfo (S ''History Merged'')
                      (str_nat (length unique_new_entries)
                       @ S '' unique entries loaded and merged from'' @ NL @ base @ NL @ NL
                       @ S ''Total entries now: '' @ str_nat (length merged))]))))"

definition prompt_and_load_history ::
  "(pystr \<Rightarrow> datetime option) \<Rightarrow> chosen_file \<Rightarrow> entry list \<Rightarrow> entry list \<times> effect list" where
  "prompt_and_load_history strptime f history =
     (if filepath f = [] then (history, [])
      else (case load_history_from_path f of
              (success, message, loaded_entries) \<Rightarrow>
                if success then merge_loaded strptime (basename f) loaded_entries history
                else (history, [MessageBox ShowError (S ''Load History Error'')
                                 (S ''Could not load history:'' @ NL @ NL @ message)])))"

text \<open>
  Sorted by \<open>time\<close>, newest first: of any two entries whose times parse, the earlier
  in the list is not the older one. An entry whose time does not parse has no place in
  the order and is not constrained.
\<close>

definition newer_or_equal :: "(pystr \<Rightarrow> datetime option) \<Rightarrow> entry \<Rightarrow> entry \<Rightarrow> bool" where
  "newer_or_equal strptime a b =
     (case (strptime (time a), strptime (time b)) of
        (Some x, Some y) \<Rightarrow> y \<le> x
      | _ \<Rightarrow> True)"

definition time_descending :: "(pystr \<Rightarrow> datetime option) \<Rightarrow> entry list \<Rightarrow> bool" where
  "time_descending strptime history = sorted_wrt (newer_or_equal strptime) history"

text \<open>
  A parser for evaluating examples: it accepts exactly the zero-padded form
  \<^verbatim>\<open>YYYY-MM-DD HH:MM:SS\<close> that \<^verbatim>\<open>strftime\<close> writes, with ASCII digits and a date
  and time that exist, and nothing else. The library's parser also accepts fields
  that are not padded; no example uses one.
\<close>

definition days_in_month :: "nat \<Rightarrow> nat \<Rightarrow> nat" where
  "days_in_month y m =
     (if m = 2 then (if y mod 4 = 0 \<and> (y mod 100 \<noteq> 0 \<or> y mod 400 = 0) then 29 else 28)
      else if m \<in> set [4, 6, 9, 11] then 30 else 31)"

definition digit2 :: "nat \<Rightarrow> nat \<Rightarrow> nat option" where
  "digit2 a b =
     (if 48 \<le> a \<and> a \<le> 57 \<and> 48 \<le> b \<and> b \<le> 57 then Some ((a - 48) * 10 + (b - 48)) else None)"

fun strptime_padded :: "pystr \<Rightarrow> datetime option" where
  "strptime_padded [y1, y2, y3, y4, d1, m1, m2, d2, a1, a2, sp, h1, h2, c1, n1, n2, c2, s1, s2] =
     (if d1 = 45 \<and> d2 = 45 \<and> sp = 32 \<and> c1 = 58 \<and> c2 = 58 then
        (case (digit2 y1 y2, digit2 y3 y4, digit2 m1 m2, digit2 a1 a2, digit2 h1 h2,
               digit2 n1 n2, digit2 s1 s2) of
           (Some yh, Some yl, Some mo, Some da, Some ho, Some mi, Some se) \<Rightarrow>
             if 1 \<le> yh * 100 + yl \<and> 1 \<le> mo \<and> mo \<le> 12 \<and> 1 \<le> da
                \<and> da \<le> days_in_month (yh * 100 + yl) mo \<and> ho < 24 \<and> mi < 60 \<and> se < 60
             then Some (yh * 100 + yl, mo, da, ho, mi, se) else None
         | _ \<Rightarrow> None)
      else None)"
| "strptime_padded _ = None"

section \<open>Providers, widgets and session state\<close>

text \<open>
  A call of \<^verbatim>\<open>translator.translate_text\<close> returns a result with a text or raises.
  An exception is its class, as far as the handlers of the program tell classes apart
  (\<^verbatim>\<open>deepl.AuthorizationException\<close> is a \<^verbatim>\<open>deepl.DeepLException\<close>), the name of its
  type and its message.
\<close>

datatype exc_class =
  AuthorizationException | DeepLException | ConnectionError | ValueError | OtherException

datatype deepl_reply = TextResult pystr | Raises exc_class pystr pystr

definition is_deepl_exception :: "exc_class \<Rightarrow> bool" where
  "is_deepl_exception c = (c = AuthorizationException \<or> c = DeepLException)"

text \<open>
  What \<^verbatim>\<open>update_result\<close> receives as \<^verbatim>\<open>full_result\<close>: a string, the dictionary
  \<^verbatim>\<open>{"translated": ..., "rephrased": ...}\<close> that \<^verbatim>\<open>run_translate_rephrase\<close> builds (both
  values strings), or \<^verbatim>\<open>None\<close>.
\<close>

datatype pyval = PyStr pystr | PyDict pystr pystr | PyNone

text \<open>
  Everything an action reads that is not the session state: the variables of the
  dropdowns (\<open>None\<close> where the variable does not exist yet), what the text boxes return
  from \<^verbatim>\<open>get("1.0", tk.END)\<close> (\<open>None\<close> where the widget does not exist), whether the
  window exists, the DeepL translator, what \<^verbatim>\<open>ask_ai\<close> returns for a prompt under an
  LLM provider (\<open>None\<close> for Python's \<^verbatim>\<open>None\<close>) and for a DeepL request (\<open>Inr\<close> the
  translated text of the dictionary, \<open>Inl\<close> a string), the workers of the fan-out that
  have appended their result when the results are read, in the order they did, the
  clock as \<^verbatim>\<open>strftime\<close> formats it, and three functions of the Python library:
  \<^verbatim>\<open>datetime.strptime\<close> with the format of the history (\<open>None\<close> where it raises
  \<^verbatim>\<open>ValueError\<close>), \<^verbatim>\<open>str.lower\<close>, and \<^verbatim>\<open>str\<close> of a dictionary with the two keys.

  An action is modelled as one step: the work of its background thread and the call of
  \<^verbatim>\<open>update_result\<close> that the thread schedules happen before the next action starts.
  The widgets exist whenever the window does.
\<close>

record env =
  api_provider_var :: "pystr option"
  source_language_var :: "pystr option"
  target_language_var :: "pystr option"
  style_var :: "pystr option"
  original_textbox :: "pystr option"
  translated_textbox :: "pystr option"
  window_exists :: bool
  deepl_translator :: "(pystr \<Rightarrow> pystr \<Rightarrow> pystr \<Rightarrow> deepl_reply) option"
  ask_ai_llm :: "pystr \<Rightarrow> pystr option"
  ask_ai_deepl :: "pystr \<Rightarrow> pystr \<Rightarrow> pystr \<Rightarrow> pystr + pystr"
  fanout_arrivals :: "pystr list"
  now :: pystr
  strptime :: "pystr \<Rightarrow> datetime option"
  py_lower :: "pystr \<Rightarrow> pystr"
  dict_repr :: "pystr \<Rightarrow> pystr \<Rightarrow> pystr"

text \<open>The globals the actions read and write, and the effects so far.\<close>

record session =
  last_selected_text :: pystr
  last_translation :: pystr
  history_data :: "entry list"
  last_history_source_language :: pystr
  last_history_target_language :: pystr
  trace :: "effect list"

definition emit :: "effect list \<Rightarrow> session \<Rightarrow> session" where
  "emit es g = g\<lparr>trace := trace g @ es\<rparr>"

definition var_get :: "pystr option \<Rightarrow> pystr \<Rightarrow> pystr" where
  "var_get v dflt = (case v of None \<Rightarrow> dflt | Some x \<Rightarrow> x)"

section \<open>Prompts\<close>

definition get_selected_style :: "env \<Rightarrow> pystr" where
  "get_selected_style env =
     (case style_var env of
        Some v \<Rightarrow> dict_get style_options v (S ''in simple and clear English'')
      | None \<Rightarrow> S ''in simple and clear English'')"

definition full_prompt :: "env \<Rightarrow> pystr \<Rightarrow> pystr \<Rightarrow> pystr \<Rightarrow> pystr" where
  "full_prompt env txt source_lang target_lang =
     (let style = get_selected_style env;
          prov = var_get (api_provider_var env) (S ''DeepSeek'')
      in if prov \<in> set [S ''OpenAI'', S ''DeepSeek'']
         then NL @ S ''Given the following text in '' @ source_lang @ S '':'' @ NL @ NL
              @ [34] @ txt @ [34] @ NL @ NL
              @ S ''1. Translate it into '' @ target_lang @ S ''.'' @ NL
              @ S ''2. Rephrase the ORIGINAL '' @ source_lang @ S '' text '' @ style
              @ S ''.'' @ NL @ NL
              @ S ''Respond ONLY in this format:'' @ NL
              @ target_lang @ S '' Translation: ...'' @ NL
              @ source_lang @ S '' Rephrased: ...'' @ NL
         else [])"

definition rephrase_prompt :: "env \<Rightarrow> pystr \<Rightarrow> pystr \<Rightarrow> pystr" where
  "rephrase_prompt env txt source_language =
     (let style = get_selected_style env
      in S ''Rephrase the following text in '' @ source_language @ S '' '' @ style
         @ S '' in 5 different ways. Provide the results in a numbered list (1. ..., 2. ..., etc.) without extra comments:''
         @ NL @ NL @ txt)"

definition translate_to_source_prompt :: "pystr \<Rightarrow> pystr \<Rightarrow> pystr" where
  "translate_to_source_prompt txt source_language =
     S ''Translate the following text into '' @ source_language @ S '':'' @ NL @ NL @ txt"

section \<open>Processing a result: \<^verbatim>\<open>update_result\<close>\<close>

text \<open>
  The parser of the two labelled sections of an LLM reply, the loop of branch C2 of
  \<^verbatim>\<open>update_result\<close>: its variables are the state, one line is one step.
\<close>

datatype parse_section = SecNone | SecTrans | SecRep

record parse_state =
  found_tr :: bool
  found_rep :: bool
  cur_section :: parse_section
  trans_parts :: "pystr list"
  rep_parts :: "pystr list"

definition parse_line :: "pystr \<Rightarrow> pystr \<Rightarrow> parse_state \<Rightarrow> pystr \<Rightarrow> parse_state" where
  "parse_line tr_keyword rep_keyword st line =
     (let l = strip line in
      if l = [] then st
      else if startswith l tr_keyword \<and> \<not> found_tr st
        then st\<lparr>found_tr := True, cur_section := SecTrans,
                trans_parts := trans_parts st @ [strip (drop (length tr_keyword) l)]\<rparr>
      else if startswith l rep_keyword \<and> found_tr st \<and> \<not> found_rep st
        then st\<lparr>found_rep := True, cur_section := SecRep,
                rep_parts := rep_parts st @ [strip (drop (length rep_keyword) l)]\<rparr>
      else if cur_section st = SecTrans then st\<lparr>trans_parts := trans_parts st @ [l]\<rparr>
      else if cur_section st = SecRep then st\<lparr>rep_parts := rep_parts st @ [l]\<rparr>
      else st)"

definition parse_init :: parse_state where
  "parse_init =
     \<lparr>found_tr = False, found_rep = False, cur_section = SecNone, trans_parts = [],
      rep_parts = []\<rparr>"

definition TRANSLATION_NOT_FOUND :: pystr where
  "TRANSLATION_NOT_FOUND = S ''[Translation not found in LLM response]''"

definition REPHRASING_NOT_FOUND :: pystr where
  "REPHRASING_NOT_FOUND = S ''[Rephrasing not found in LLM response]''"

definition parse_llm_response :: "pystr \<Rightarrow> pystr \<Rightarrow> pystr \<Rightarrow> pystr \<times> pystr" where
  "parse_llm_response target_lang source_lang full_result =
     (let lines = split_on 10 (strip full_result);
          tr_keyword = target_lang @ S '' Translation:'';
          rep_keyword = source_lang @ S '' Rephrased:'';
          st = foldl (parse_line tr_keyword rep_keyword) parse_init lines
      in (if found_tr st then strip (join NL (trans_parts st)) else TRANSLATION_NOT_FOUND,
          if found_rep st then strip (join NL (rep_parts st)) else REPHRASING_NOT_FOUND))"

definition is_error_result :: "pyval \<Rightarrow> bool" where
  "is_error_result v = (case v of PyStr s \<Rightarrow> startswith s ERROR_PREFIX | _ \<Rightarrow> False)"

definition error_message :: "pyval \<Rightarrow> pystr" where
  "error_message v = (case v of PyStr s \<Rightarrow> py_replace ERROR_PREFIX [] s | _ \<Rightarrow> [])"

text \<open>\<^verbatim>\<open>str(full_result)\<close>; the text of a dictionary is the library's.\<close>

definition py_str :: "env \<Rightarrow> pyval \<Rightarrow> pystr" where
  "py_str env v =
     (case v of PyStr s \<Rightarrow> s | PyDict t r \<Rightarrow> dict_repr env t r | PyNone \<Rightarrow> S ''None'')"

definition UNEXPECTED_FORMAT :: pystr where
  "UNEXPECTED_FORMAT = S ''[Error: Unexpected API result format]''"

text \<open>
  Branch C of \<^verbatim>\<open>update_result\<close> (a forward translation): the translated and the
  rephrased text for the history, and \<^verbatim>\<open>last_translation\<close> afterwards, which only
  branches C1 and C2 assign.
\<close>

definition forward_fields :: "pystr \<Rightarrow> pyval \<Rightarrow> session \<Rightarrow> pystr \<times> pystr \<times> pystr" where
  "forward_fields prov full_result g =
     (case full_result of
        PyDict t r \<Rightarrow>
          if prov = S ''DeepL'' then (t, r, t)
          else (UNEXPECTED_FORMAT, UNEXPECTED_FORMAT, last_translation g)
      | PyStr s \<Rightarrow>
          if prov \<noteq> S ''DeepL''
          then (case parse_llm_response (last_history_target_language g)
                       (last_history_source_language g) s of
                  (t, r) \<Rightarrow> (t, r, t))
          else (UNEXPECTED_FORMAT, UNEXPECTED_FORMAT, last_translation g)
      | PyNone \<Rightarrow> (UNEXPECTED_FORMAT, UNEXPECTED_FORMAT, last_translation g))"

text \<open>
  The three texts of the history record (original, translated, rephrased), by action.
\<close>

definition history_fields ::
  "env \<Rightarrow> pystr \<Rightarrow> pyval \<Rightarrow> bool \<Rightarrow> bool \<Rightarrow> session \<Rightarrow> pystr \<times> pystr \<times> pystr" where
  "history_fields env text_passed full_result is_rephrase is_reverse g =
     (let prov = var_get (api_provider_var env) (S ''N/A'') in
      if is_reverse
      then (text_passed, py_str env full_result, S ''[N/A for reverse translation]'')
      else if is_rephrase
      then (text_passed, last_translation g,
            if prov = S ''DeepSeek'' then re_sub_blank_lines (strip (py_str env full_result))
            else py_str env full_result)
      else (case forward_fields prov full_result g of
              (t, r, lt) \<Rightarrow> (text_passed, t, r)))"

text \<open>
  The assignments to \<^verbatim>\<open>last_translation\<close> and \<^verbatim>\<open>last_selected_text\<close>: only in
  branch C.
\<close>

definition remember ::
  "env \<Rightarrow> pystr \<Rightarrow> pyval \<Rightarrow> bool \<Rightarrow> bool \<Rightarrow> session \<Rightarrow> session" where
  "remember env text_passed full_result is_rephrase is_reverse g =
     (let prov = var_get (api_provider_var env) (S ''N/A'') in
      if is_reverse \<or> is_rephrase then g
      else (case forward_fields prov full_result g of
              (t, r, lt) \<Rightarrow>
                (let g1 = g\<lparr>last_translation := lt\<rparr>
                 in if t \<noteq> [] \<and> \<not> startswith t (S ''['')
                    then g1\<lparr>last_selected_text := text_passed\<rparr> else g1)))"

definition update_result ::
  "env \<Rightarrow> pystr \<Rightarrow> pyval \<Rightarrow> bool \<Rightarrow> bool \<Rightarrow> session \<Rightarrow> session" where
  "update_result env text_passed full_result is_rephrase is_reverse g =
     (if is_error_result full_result
      then emit [MessageBox ShowError (S ''API Error'') (error_message full_result),
                 UpdateButtonStates is_reverse] g
      else
        (case history_fields env text_passed full_result is_rephrase is_reverse g of
           (history_original, history_translated, history_rephrased) \<Rightarrow>
             (let g1 = remember env text_passed full_result is_rephrase is_reverse g;
                  new_history_entry =
                    \<lparr> time = now env, original = history_original,
                      translated = history_translated, rephrased = history_rephrased,
                      provider = var_get (api_provider_var env) (S ''N/A''),
                      target_language = last_history_source_language g @ S '' -> ''
                                        @ last_history_target_language g \<rparr>;
                  history = sort_history_data (strptime env) (history_data g1 @ [new_history_entry]);
                  boxes = (if is_reverse
                           then UpdateTextboxes history_translated history_original []
                           else UpdateTextboxes history_original history_translated
                                  history_rephrased)
              in emit [SaveHistoryXml history, boxes, UpdateButtonStates is_reverse]
                   (g1\<lparr>history_data := history\<rparr>))))"

section \<open>Translate and rephrase: \<^verbatim>\<open>run_translate_rephrase\<close>\<close>

text \<open>
  The DeepL branch of \<^verbatim>\<open>api_call\<close> once the translator exists: the result for
  \<^verbatim>\<open>update_result\<close> and the calls made. An exception of step 1 reaches the outer
  handlers and becomes an error string; step 2 has handlers of its own.
\<close>

definition api_call_error :: "exc_class \<Rightarrow> pystr \<Rightarrow> pystr \<Rightarrow> pystr" where
  "api_call_error c type_name msg =
     (if is_deepl_exception c then ERROR_PREFIX @ S ''DeepL API Error: '' @ msg
      else if c = ConnectionError then ERROR_PREFIX @ msg
      else ERROR_PREFIX @ S ''Error during Translate & Rephrase API call: '' @ type_name
           @ S '': '' @ msg)"

definition two_hop ::
  "(pystr \<Rightarrow> pystr \<Rightarrow> pystr \<Rightarrow> deepl_reply) \<Rightarrow> pystr \<Rightarrow> pystr \<Rightarrow> pystr \<Rightarrow> pyval \<times> effect list" where
  "two_hop translator src_lang_display tgt_lang_display text_to_process =
     (let step1_source_lang_code = get_deepl_source_code src_lang_display;
          step1_target_lang_code = get_deepl_target_code tgt_lang_display;
          call1 = TranslateText text_to_process step1_source_lang_code step1_target_lang_code
      in case translator text_to_process step1_source_lang_code step1_target_lang_code of
           Raises c type_name msg \<Rightarrow> (PyStr (api_call_error c type_name msg), [call1])
         | TextResult translated_text \<Rightarrow>
             if translated_text = []
             then (PyDict (S ''[Translation Failed or Empty]'') (S ''[Rephrasing skipped]''),
                   [call1])
             else
               (let step2_source_lang_code = get_deepl_source_code tgt_lang_display;
                    step2_target_lang_code = get_deepl_target_code src_lang_display;
                    call2 = TranslateText translated_text step2_source_lang_code
                              step2_target_lang_code;
                    rephrased_text =
                      (case translator translated_text step2_source_lang_code
                              step2_target_lang_code of
                         TextResult r \<Rightarrow>
                           if r \<noteq> [] then r else S ''[Rephrasing resulted in empty text]''
                       | Raises c type_name msg \<Rightarrow>
                           if is_deepl_exception c
                           then S ''[Rephrasing Error: '' @ type_name @ S '']''
                           else S ''[Unexpected Rephrasing Error]'')
                in (PyDict translated_text rephrased_text, [call1, call2])))"

definition translate_api_call ::
  "env \<Rightarrow> pystr \<Rightarrow> pystr \<Rightarrow> pystr \<Rightarrow> pystr \<Rightarrow> pyval \<times> effect list" where
  "translate_api_call env prov src_lang_display tgt_lang_display text_to_process =
     (if prov = S ''DeepL''
      then (case deepl_translator env of
              None \<Rightarrow> (PyStr (ERROR_PREFIX @ S ''DeepL translator not initialised.''), [])
            | Some translator \<Rightarrow>
                two_hop translator src_lang_display tgt_lang_display text_to_process)
      else (let prompt = full_prompt env text_to_process src_lang_display tgt_lang_display
            in ((case ask_ai_llm env prompt of None \<Rightarrow> PyNone | Some s \<Rightarrow> PyStr s),
                [AskAiPrompt prompt])))"

definition run_translate_rephrase :: "env \<Rightarrow> session \<Rightarrow> session" where
  "run_translate_rephrase env g =
     (case original_textbox env of
        None \<Rightarrow> g
      | Some box \<Rightarrow>
          (let text_to_process = strip box in
           if text_to_process = []
           then emit [MessageBox ShowWarning (S ''Input Missing'')
                        (S ''Please enter text in the Source Text area.'')] g
           else
             (let prov = var_get (api_provider_var env) (S ''DeepL'');
                  src_lang_display = var_get (source_language_var env) (S ''English'');
                  tgt_lang_display = var_get (target_language_var env) (S ''Turkish'');
                  g1 = g\<lparr>last_history_source_language := src_lang_display,
                          last_history_target_language := tgt_lang_display\<rparr>
              in case translate_api_call env prov src_lang_display tgt_lang_display
                        text_to_process of
                   (final_result_for_update, calls) \<Rightarrow>
                     if window_exists env
                     then update_result env text_to_process final_result_for_update False False
                            (emit calls g1)
                     else emit calls g1)))"

section \<open>Rephrase again: \<^verbatim>\<open>rephrase_again\<close>\<close>

definition intermediate_codes :: "pystr list" where
  "intermediate_codes = [S ''TR'', S ''FR'', S ''RU'', S ''IT'', S ''ES'']"

text \<open>
  One worker of the fan-out: the string it appends to the shared list, and its calls.
\<close>

definition worker_error :: "pystr \<Rightarrow> exc_class \<Rightarrow> pystr \<Rightarrow> pystr \<Rightarrow> pystr" where
  "worker_error intermediate_code c type_name msg =
     (if is_deepl_exception c then S ''DeepL API Error via '' @ intermediate_code @ S '': '' @ msg
      else if c = ValueError then S ''ValueError via '' @ intermediate_code @ S '': '' @ msg
      else S ''Unexpected error via '' @ intermediate_code @ S '': '' @ type_name @ S '': ''
           @ msg)"

definition perform_double_translation ::
  "pystr \<Rightarrow> pystr \<Rightarrow> pystr \<Rightarrow> pystr \<Rightarrow> (pystr \<Rightarrow> pystr \<Rightarrow> pystr \<Rightarrow> deepl_reply) \<Rightarrow> pystr \<times> effect list" where
  "perform_double_translation intermediate_code src_code tgt_code txt translator =
     (let call1 = TranslateText txt src_code intermediate_code in
      case translator txt src_code intermediate_code of
        Raises c type_name msg \<Rightarrow>
          (ERROR_PREFIX @ worker_error intermediate_code c type_name msg, [call1])
      | TextResult intermediate_text \<Rightarrow>
          if intermediate_text = []
          then (ERROR_PREFIX @ worker_error intermediate_code ValueError (S ''ValueError'')
                  (S ''Intermediate ('' @ intermediate_code @ S '') empty''), [call1])
          else
            (let call2 = TranslateText intermediate_text intermediate_code tgt_code in
             case translator intermediate_text intermediate_code tgt_code of
               Raises c type_name msg \<Rightarrow>
                 (ERROR_PREFIX @ worker_error intermediate_code c type_name msg, [call1, call2])
             | TextResult rephrased_output \<Rightarrow>
                 if rephrased_output = []
                 then (ERROR_PREFIX @ worker_error intermediate_code ValueError (S ''ValueError'')
                         (S ''Final ('' @ tgt_code @ S '') empty via '' @ intermediate_code),
                       [call1, call2])
                 else (rephrased_output, [call1, call2])))"

text \<open>
  \<^verbatim>\<open>process_deepl_results\<close>, first loop: the results that are not errors and not empty
  once stripped, stripped, in the order of the shared list. Every element of the list
  is a string, as \<open>perform_double_translation\<close> appends nothing else.
\<close>

fun collect_valid :: "pystr list \<Rightarrow> pystr list" where
  "collect_valid [] = []"
| "collect_valid (res # results) =
     (if \<not> startswith res ERROR_PREFIX
      then (let res_strip = strip res
            in if res_strip \<noteq> [] then res_strip # collect_valid results
               else collect_valid results)
      else collect_valid results)"

definition NO_VALID_REPHRASES :: pystr where
  "NO_VALID_REPHRASES =
     S ''[No valid rephrased alternatives found using multi-language translation.]''"

definition display_limit :: nat where
  "display_limit = 5"

definition format_rephrases :: "pystr list \<Rightarrow> pystr" where
  "format_rephrases valid_rephrases =
     (if valid_rephrases \<noteq> []
      then (let formatted_output =
                  join NL (map (\<lambda>(i, phrase). str_nat (i + 1) @ S ''. '' @ phrase)
                             (enumerate 0 (take display_limit valid_rephrases)))
            in if length valid_rephrases > display_limit
               then formatted_output @ NL @ S ''... ('' @ str_nat (length valid_rephrases)
                    @ S '' results found)''
               else formatted_output)
      else NO_VALID_REPHRASES)"

definition update_rephrase_box :: "pystr \<Rightarrow> session \<Rightarrow> session" where
  "update_rephrase_box text_to_display g =
     (if startswith text_to_display ERROR_PREFIX
      then emit [MessageBox ShowError (S ''Rephrase Error'')
                   (S ''Could not rephrase:'' @ NL @ NL
                    @ py_replace ERROR_PREFIX [] text_to_display),
                 UpdateRephraseBox (S ''[Rephrasing failed, see error message]''),
                 UpdateButtonStates False] g
      else emit [UpdateRephraseBox text_to_display, UpdateButtonStates False] g)"

definition process_deepl_results :: "env \<Rightarrow> pystr \<Rightarrow> pystr list \<Rightarrow> session \<Rightarrow> session" where
  "process_deepl_results env current_provider results g =
     (let valid_rephrases = collect_valid results;
          formatted_output = format_rephrases valid_rephrases;
          direction = last_history_source_language g @ S '' -> ''
                      @ last_history_target_language g;
          new_history_entry =
            \<lparr> time = now env, original = last_selected_text g,
              translated = (if last_translation g \<noteq> [] then last_translation g
                            else S ''[Previous translation missing]''),
              rephrased = formatted_output,
              provider = current_provider @ S '' (Rephrase)'',
              target_language = (if direction \<noteq> [] then direction
                                 else S ''Unknown Direction'') \<rparr>;
          history = sort_history_data (strptime env) (history_data g @ [new_history_entry]);
          g1 = emit [SaveHistoryXml history] (g\<lparr>history_data := history\<rparr>)
      in if window_exists env then update_rephrase_box formatted_output g1 else g1)"

text \<open>
  The join: each of the five workers appends once, so the shared list holds one result
  for each worker that has finished when it is read, in the order they finished. The
  trace holds the calls of those workers; a worker that is abandoned after the timeout
  contributes neither a result nor calls.
\<close>

definition arrived_workers :: "env \<Rightarrow> pystr list" where
  "arrived_workers env =
     filter (\<lambda>code. code \<in> set intermediate_codes) (remdups (fanout_arrivals env))"

definition rephrase_again :: "env \<Rightarrow> session \<Rightarrow> session" where
  "rephrase_again env g =
     (let current_provider = var_get (api_provider_var env) (S ''N/A'') in
      if last_selected_text g = []
      then emit [MessageBox ShowWarning (S ''No Text Found'')
                   (S ''Cannot rephrase because the source text is missing.'' @ NL
                    @ S ''Please perform a translation first.'')] g
      else
        (let source_language_display_name = var_get (source_language_var env) (S ''English'')
         in if current_provider = S ''DeepL''
            then (case deepl_translator env of
                    None \<Rightarrow>
                      emit [MessageBox ShowError (S ''API Error'')
                              (S ''DeepL API Key not configured or translator not initialised.'')] g
                  | Some translator \<Rightarrow>
                      (let source_lang_code = get_deepl_source_code source_language_display_name;
                           target_lang_code = get_deepl_target_code source_language_display_name;
                           workers = map (\<lambda>code. perform_double_translation code source_lang_code
                                            target_lang_code (last_selected_text g) translator)
                                       (arrived_workers env)
                       in process_deepl_results env current_provider (map fst workers)
                            (emit (concat (map snd workers)) g)))
            else
              (let src_lang_for_llm =
                     dict_get (dict_get supported_languages current_provider [])
                       source_language_display_name source_language_display_name;
                   prompt = rephrase_prompt env (last_selected_text g) src_lang_for_llm;
                   raw_llm_result =
                     (case ask_ai_llm env prompt of
                        None \<Rightarrow> PyStr (ERROR_PREFIX @ S ''LLM API call returned None.'')
                      | Some s \<Rightarrow> PyStr s);
                   g1 = emit [AskAiPrompt prompt] g
               in if window_exists env
                  then update_result env (last_selected_text g) raw_llm_result True False g1
                  else g1)))"

section \<open>Translate back: \<^verbatim>\<open>translate_to_source\<close>\<close>

text \<open>
  The reply of an LLM that is a string and not an error: quotes removed, then the
  echoed label removed when the text starts with it, case ignored.
\<close>

definition clean_llm_back_translation :: "env \<Rightarrow> pystr \<Rightarrow> pystr \<Rightarrow> pystr" where
  "clean_llm_back_translation env final_target_lang_display raw_llm_result =
     (let cleaned_res = py_replace [34] [] (strip raw_llm_result);
          kw = final_target_lang_display @ S '' Translation:''
      in if startswith (py_lower env cleaned_res) (py_lower env kw)
         then strip (drop (length kw) cleaned_res)
         else cleaned_res)"

definition back_api_call ::
  "env \<Rightarrow> pystr \<Rightarrow> pystr \<Rightarrow> pystr \<Rightarrow> pystr \<Rightarrow> pystr \<times> effect list" where
  "back_api_call env prov final_target_lang_display current_text_lang_display
     text_to_translate_back =
     (if prov = S ''DeepL''
      then (let source_lang_code = get_deepl_source_code current_text_lang_display;
                target_lang_code = get_deepl_target_code final_target_lang_display
            in ((case ask_ai_deepl env text_to_translate_back target_lang_code source_lang_code of
                   Inr t \<Rightarrow> t
                 | Inl s \<Rightarrow>
                     if startswith s ERROR_PREFIX then s
                     else ERROR_PREFIX @ S ''DeepL Error: Unexpected back-translation format.''),
                [AskAiDeepL text_to_translate_back target_lang_code source_lang_code]))
      else (let prompt = translate_to_source_prompt text_to_translate_back
                           final_target_lang_display
            in ((case ask_ai_llm env prompt of
                   Some raw_llm_result \<Rightarrow>
                     if startswith raw_llm_result ERROR_PREFIX then raw_llm_result
                     else clean_llm_back_translation env final_target_lang_display raw_llm_result
                 | None \<Rightarrow>
                     ERROR_PREFIX @ S ''LLM Error: Unexpected back-translation type (<class ''
                     @ [39] @ S ''NoneType'' @ [39] @ S ''>).''),
                [AskAiPrompt prompt])))"

definition translate_to_source :: "env \<Rightarrow> session \<Rightarrow> session" where
  "translate_to_source env g =
     (case translated_textbox env of
        None \<Rightarrow> g
      | Some box \<Rightarrow>
          (let text_to_translate_back = strip box in
           if text_to_translate_back = []
           then emit [MessageBox ShowWarning (S ''Input Missing'')
                        (S ''Please enter text in the '' @ [39] @ S ''Translated Text (Target)''
                         @ [39] @ S '' area to translate back.'')] g
           else
             (let prov = var_get (api_provider_var env) (S ''DeepL'');
                  final_target_lang_display = var_get (source_language_var env) (S ''English'');
                  current_text_lang_display = var_get (target_language_var env) (S ''Turkish'');
                  g1 = g\<lparr>last_history_source_language := current_text_lang_display,
                          last_history_target_language := final_target_lang_display\<rparr>
              in case back_api_call env prov final_target_lang_display
                        current_text_lang_display text_to_translate_back of
                   (final_result_for_update, calls) \<Rightarrow>
                     if window_exists env
                     then update_result env text_to_translate_back
                            (PyStr final_result_for_update) False True (emit calls g1)
                     else emit calls g1)))"

text \<open>The three actions a user can trigger.\<close>

datatype action = Translate | TranslateBack | RephraseAgain

definition run_action :: "action \<Rightarrow> env \<Rightarrow> session \<Rightarrow> session" where
  "run_action a env g =
     (case a of
        Translate \<Rightarrow> run_translate_rephrase env g
      | TranslateBack \<Rightarrow> translate_to_source env g
      | RephraseAgain \<Rightarrow> rephrase_again env g)"

text \<open>
  For the properties of the parser: one step of \<open>parse_line\<close> on a line that is
  already stripped and not empty, and the lines the parser acts on.
\<close>

definition parse_step :: "pystr \<Rightarrow> pystr \<Rightarrow> parse_state \<Rightarrow> pystr \<Rightarrow> parse_state" where
  "parse_step tr_keyword rep_keyword st l =
     (if startswith l tr_keyword \<and> \<not> found_tr st
        then st\<lparr>found_tr := True, cur_section := SecTrans,
                trans_parts := trans_parts st @ [strip (drop (length tr_keyword) l)]\<rparr>
      else if startswith l rep_keyword \<and> found_tr st \<and> \<not> found_rep st
        then st\<lparr>found_rep := True, cur_section := SecRep,
                rep_parts := rep_parts st @ [strip (drop (length rep_keyword) l)]\<rparr>
      else if cur_section st = SecTrans then st\<lparr>trans_parts := trans_parts st @ [l]\<rparr>
      else if cur_section st = SecRep then st\<lparr>rep_parts := rep_parts st @ [l]\<rparr>
      else st)"

definition stripped_lines :: "pystr \<Rightarrow> pystr list" where
  "stripped_lines full_result =
     filter (\<lambda>l. l \<noteq> []) (map strip (split_on 10 (strip full_result)))"

text \<open>The effects that are a call to a provider.\<close>

definition is_network_call :: "effect \<Rightarrow> bool" where
  "is_network_call e =
     (case e of TranslateText a b c \<Rightarrow> True | AskAiPrompt p \<Rightarrow> True
      | AskAiDeepL a b c \<Rightarrow> True | _ \<Rightarrow> False)"

section \<open>Examples for evaluation\<close>

definition example_results :: "pystr list" where
  "example_results =
     [S ''Hello'', ERROR_PREFIX @ S ''x'', S ''Hi '', S ''Hello'', ERROR_PREFIX @ S ''y'']"

definition six_results :: "pystr list" where
  "six_results = [S ''a'', S ''b'', S ''c'', S ''d'', S ''e'', S ''f'']"

definition example_env :: env where
  "example_env =
     \<lparr> api_provider_var = Some (S ''DeepL''),
       source_language_var = Some (S ''English''),
       target_language_var = Some (S ''Turkish''),
       style_var = None,
       original_textbox = Some (S ''Hello''),
       translated_textbox = Some (S ''Merhaba''),
       window_exists = True,
       deepl_translator = None,
       ask_ai_llm = (\<lambda>p. None),
       ask_ai_deepl = (\<lambda>t a b. Inl []),
       fanout_arrivals = [],
       now = S ''2025-01-03 10:00:00'',
       strptime = strptime_padded,
       py_lower = (\<lambda>s. s),
       dict_repr = (\<lambda>t r. []) \<rparr>"

definition example_session :: session where
  "example_session =
     \<lparr> last_selected_text = S ''Hello'',
       last_translation = S ''Merhaba'',
       history_data = [],
       last_history_source_language = S ''English'',
       last_history_target_language = S ''Turkish'',
       trace = [] \<rparr>"

definition all_failed :: "pystr list" where
  "all_failed =
     [ERROR_PREFIX @ S ''DeepL API Error via TR: quota'', ERROR_PREFIX @ S ''ValueError via FR: Intermediate (FR) empty'']"

definition echo_translator :: "pystr \<Rightarrow> pystr \<Rightarrow> pystr \<Rightarrow> deepl_reply" where
  "echo_translator t src_code tgt_code = TextResult (t @ S ''!'')"

definition flaky_translator :: "pystr \<Rightarrow> pystr \<Rightarrow> pystr \<Rightarrow> deepl_reply" where
  "flaky_translator t src_code tgt_code =
     (if tgt_code = S ''TR'' then TextResult (S ''Merhaba'')
      else Raises DeepLException (S ''QuotaExceededException'') (S ''Quota exceeded''))"

definition empty_translator :: "pystr \<Rightarrow> pystr \<Rightarrow> pystr \<Rightarrow> deepl_reply" where
  "empty_translator t src_code tgt_code = TextResult []"

definition ascii_lower :: "pystr \<Rightarrow> pystr" where
  "ascii_lower s = map (\<lambda>c. if 65 \<le> c \<and> c \<le> 90 then c + 32 else c) s"

definition quoted_reply :: pystr where
  "quoted_reply = [34] @ S ''english translation: say '' @ [34] @ S ''hi'' @ [34] @ [34]"

definition llm_env :: env where
  "llm_env = example_env\<lparr> api_provider_var := Some (S ''OpenAI''),
                          ask_ai_llm := (\<lambda>p. Some quoted_reply),
                          py_lower := ascii_lower \<rparr>"

definition back_env :: env where
  "back_env = example_env\<lparr> translated_textbox := Some (S ''Selam''),
                           ask_ai_deepl := (\<lambda>t tgt_code src_code. Inr (S ''Hi'')) \<rparr>"

definition mk_entry :: "pystr \<Rightarrow> pystr \<Rightarrow> entry" where
  "mk_entry t tr =
     \<lparr> time = t, original = S ''Hello'', translated = tr, rephrased = [],
       provider = S ''DeepL'', target_language = S ''English -> Turkish'' \<rparr>"

definition mk_item :: "pystr \<Rightarrow> pystr \<Rightarrow> xml_item" where
  "mk_item t tr =
     (S ''item'',
      [(S ''time'', Some t), (S ''provider'', Some (S ''DeepL'')),
       (S ''original'', Some (S ''Hello'')), (S ''translated'', Some tr),
       (S ''rephrased'', None), (S ''target_language'', Some (S ''English -> Turkish''))])"

definition T1 :: pystr where "T1 = S ''2025-01-01 00:00:00''"

definition T2 :: pystr where "T2 = S ''2025-01-02 00:00:00''"

definition T3 :: pystr where "T3 = S ''2025-01-03 00:00:00''"

definition example_store :: "entry list" where
  "example_store = [mk_entry T2 (S ''iki''), mk_entry T1 (S ''bir'')]"

definition import_file :: "xml_item list \<Rightarrow> chosen_file" where
  "import_file items =
     \<lparr> filepath = S ''import.xml'', basename = S ''import.xml'',
       content = Document (S ''history'') items \<rparr>"

definition reply_both :: pystr where
  "reply_both = S ''German Translation: Hallo'' @ NL @ S ''English Rephrased: Hi there''"

definition reply_translation_only :: pystr where
  "reply_translation_only = S ''Sure!'' @ NL @ S ''German Translation: Hallo''"

definition reply_indented :: pystr where
  "reply_indented = S ''German Translation: Guten'' @ NL @ S ''  Tag''"

section \<open>Properties of the fan-out rephrase\<close>

lemma collect_valid_filter:
  "collect_valid results =
     map strip (filter (\<lambda>res. \<not> startswith res ERROR_PREFIX \<and> strip res \<noteq> []) results)"
  by (induction results) (simp_all add: Let_def)

lemma str_nat_Suc_digit: "n < 9 \<Longrightarrow> str_nat (Suc n) = [49 + n]"
  by (simp add: str_nat.simps)

lemma map_enumerate_nth:
  "map (\<lambda>(i, x). f i x) (enumerate 0 xs) = map (\<lambda>i. f i (xs ! i)) [0..<length xs]"
  by (rule nth_equalityI) (simp_all add: nth_enumerate_eq)

lemma numbered_lines:
  "map (\<lambda>(i, phrase). str_nat (i + 1) @ S ''. '' @ phrase) (enumerate 0 (take display_limit v))
   = map (\<lambda>i. [49 + i] @ S ''. '' @ v ! i) [0..<min 5 (length v)]"
  unfolding map_enumerate_nth
  by (rule map_cong) (auto simp: display_limit_def str_nat_Suc_digit min_def split: if_splits)

lemma format_rephrases_nonempty:
  assumes "v \<noteq> []"
  shows "format_rephrases v =
     join NL (map (\<lambda>i. [49 + i] @ S ''. '' @ v ! i) [0..<min 5 (length v)])
     @ (if 5 < length v then NL @ S ''... ('' @ str_nat (length v) @ S '' results found)'' else [])"
proof -
  have "format_rephrases v =
      (if length v > display_limit
       then join NL (map (\<lambda>(i, phrase). str_nat (i + 1) @ S ''. '' @ phrase)
                             (enumerate 0 (take display_limit v)))
            @ NL @ S ''... ('' @ str_nat (length v) @ S '' results found)''
       else join NL (map (\<lambda>(i, phrase). str_nat (i + 1) @ S ''. '' @ phrase)
                             (enumerate 0 (take display_limit v))))"
    using assms unfolding format_rephrases_def Let_def by simp
  then show ?thesis
    unfolding numbered_lines by (simp add: display_limit_def)
qed

lemma join_Cons_hd: "join sep ((c # p) # ps) = c # join sep (p # ps)"
  by (cases ps) simp_all

lemma format_first_char:
  assumes "v \<noteq> []"
  shows "\<exists>rest. format_rephrases v = 49 # rest"
proof -
  obtain x xs where v: "v = x # xs" using assms by (cases v) auto
  have "0 < min 5 (length v)" using v by simp
  then have "[0..<min 5 (length v)] = 0 # [Suc 0..<min 5 (length v)]"
    by (rule upt_conv_Cons)
  then show ?thesis
    unfolding format_rephrases_nonempty[OF assms] by (simp add: join_Cons_hd)
qed

lemma format_not_error: "\<not> startswith (format_rephrases v) ERROR_PREFIX"
proof (cases "v = []")
  case True
  then show ?thesis
    by (simp add: format_rephrases_def NO_VALID_REPHRASES_def ERROR_PREFIX_def startswith_def S_def)
next
  case False
  then obtain rest where "format_rephrases v = 49 # rest" using format_first_char by blast
  then show ?thesis by (simp add: ERROR_PREFIX_def startswith_def S_def)
qed

text \<open>
  C1. Whatever list of results the workers of the DeepL fan-out leave, the candidates
  kept are the results that are not error strings and are not empty once stripped, in
  the order of the list and with duplicates, each stripped; when there is a candidate,
  the output is the numbered list \<open>1. ...\<close> up to \<open>5. ...\<close> of the first five, followed
  by a note with the total count when there are more than five; and that output is what
  the rephrase box shows.
\<close>

theorem C1_fanout_candidates_and_format:
  "collect_valid results =
     map strip (filter (\<lambda>res. \<not> startswith res ERROR_PREFIX \<and> strip res \<noteq> []) results)
   \<and> (collect_valid results \<noteq> [] \<longrightarrow>
        format_rephrases (collect_valid results) =
          join NL (map (\<lambda>i. [49 + i] @ S ''. '' @ collect_valid results ! i)
                     [0..<min 5 (length (collect_valid results))])
          @ (if 5 < length (collect_valid results)
             then NL @ S ''... ('' @ str_nat (length (collect_valid results))
                  @ S '' results found)''
             else []))
   \<and> (window_exists env \<longrightarrow>
        trace (process_deepl_results env current_provider results g) =
          trace g @ [SaveHistoryXml (history_data (process_deepl_results env current_provider results g)),
                     UpdateRephraseBox (format_rephrases (collect_valid results)),
                     UpdateButtonStates False])"
proof (intro conjI impI)
  show "collect_valid results =
     map strip (filter (\<lambda>res. \<not> startswith res ERROR_PREFIX \<and> strip res \<noteq> []) results)"
    by (rule collect_valid_filter)
next
  assume "collect_valid results \<noteq> []"
  then show "format_rephrases (collect_valid results) =
          join NL (map (\<lambda>i. [49 + i] @ S ''. '' @ collect_valid results ! i)
                     [0..<min 5 (length (collect_valid results))])
          @ (if 5 < length (collect_valid results)
             then NL @ S ''... ('' @ str_nat (length (collect_valid results))
                  @ S '' results found)''
             else [])"
    by (rule format_rephrases_nonempty)
next
  assume "window_exists env"
  then show "trace (process_deepl_results env current_provider results g) =
          trace g @ [SaveHistoryXml (history_data (process_deepl_results env current_provider results g)),
                     UpdateRephraseBox (format_rephrases (collect_valid results)),
                     UpdateButtonStates False]"
    by (simp add: process_deepl_results_def Let_def update_rephrase_box_def emit_def
        format_not_error)
qed

lemma example_results_valid:
  "collect_valid example_results = [S ''Hello'', S ''Hi'', S ''Hello'']"
  by (simp add: example_results_def strip_def py_isspace_def startswith_def ERROR_PREFIX_def S_def
      Let_def)

lemma six_results_valid: "collect_valid six_results = six_results"
  by (simp add: six_results_def strip_def py_isspace_def startswith_def ERROR_PREFIX_def S_def
      Let_def)

theorem C1_witness:
  "collect_valid example_results = [S ''Hello'', S ''Hi'', S ''Hello'']
   \<and> format_rephrases (collect_valid example_results)
       = S ''1. Hello'' @ NL @ S ''2. Hi'' @ NL @ S ''3. Hello''
   \<and> format_rephrases (collect_valid six_results)
       = S ''1. a'' @ NL @ S ''2. b'' @ NL @ S ''3. c'' @ NL @ S ''4. d'' @ NL @ S ''5. e'' @ NL
         @ S ''... (6 results found)''"
proof -
  have three: "collect_valid example_results \<noteq> [] \<longrightarrow>
        format_rephrases (collect_valid example_results) =
          join NL (map (\<lambda>i. [49 + i] @ S ''. '' @ collect_valid example_results ! i)
                     [0..<min 5 (length (collect_valid example_results))])
          @ (if 5 < length (collect_valid example_results)
             then NL @ S ''... ('' @ str_nat (length (collect_valid example_results))
                  @ S '' results found)''
             else [])"
    by (rule conjunct1 [OF conjunct2 [OF C1_fanout_candidates_and_format [of example_results]]])
  have six: "collect_valid six_results \<noteq> [] \<longrightarrow>
        format_rephrases (collect_valid six_results) =
          join NL (map (\<lambda>i. [49 + i] @ S ''. '' @ collect_valid six_results ! i)
                     [0..<min 5 (length (collect_valid six_results))])
          @ (if 5 < length (collect_valid six_results)
             then NL @ S ''... ('' @ str_nat (length (collect_valid six_results))
                  @ S '' results found)''
             else [])"
    by (rule conjunct1 [OF conjunct2 [OF C1_fanout_candidates_and_format [of six_results]]])
  have a: "format_rephrases (collect_valid example_results)
       = S ''1. Hello'' @ NL @ S ''2. Hi'' @ NL @ S ''3. Hello''"
    using three unfolding example_results_valid by (simp add: S_def NL_def upt_rec)
  have b: "format_rephrases (collect_valid six_results)
       = S ''1. a'' @ NL @ S ''2. b'' @ NL @ S ''3. c'' @ NL @ S ''4. d'' @ NL @ S ''5. e'' @ NL
         @ S ''... (6 results found)''"
    using six unfolding six_results_valid
    by (simp add: six_results_def S_def NL_def upt_rec str_nat.simps)
  show ?thesis using a b example_results_valid by simp
qed

text \<open>
  In the action itself the shared list holds at most one result for each of the five
  workers, so the count of candidates never exceeds the display limit there.
\<close>

lemma arrived_workers_bound: "length (arrived_workers env) \<le> 5"
proof -
  have d: "distinct (arrived_workers env)"
    by (simp add: arrived_workers_def)
  have "set (arrived_workers env) \<subseteq> set intermediate_codes"
    by (auto simp: arrived_workers_def)
  then have "card (set (arrived_workers env)) \<le> card (set intermediate_codes)"
    by (intro card_mono) simp_all
  also have "\<dots> \<le> length intermediate_codes" by (rule card_length)
  also have "\<dots> = 5" by (simp add: intermediate_codes_def)
  finally show ?thesis using d by (simp add: distinct_card)
qed

lemma collect_valid_length: "length (collect_valid results) \<le> length results"
  by (simp add: collect_valid_filter)

lemma fanout_never_overflows:
  "length (collect_valid (map (\<lambda>code. fst (perform_double_translation code s t txt translator))
             (arrived_workers env))) \<le> display_limit"
  using collect_valid_length [of "map (\<lambda>code. fst (perform_double_translation code s t txt translator))
             (arrived_workers env)"] arrived_workers_bound [of env]
  by (simp add: display_limit_def)

section \<open>Properties of the history store\<close>

lemma those_map_Some: "those xs = Some ys \<Longrightarrow> xs = map Some ys"
  by (induction xs arbitrary: ys) (auto split: option.splits)

lemma those_all_Some: "(\<forall>x\<in>set xs. x \<noteq> None) \<Longrightarrow> \<exists>ys. those xs = Some ys"
  by (induction xs) (auto split: option.splits)

lemma sort_history_data_mset: "mset (sort_history_data P h) = mset h"
proof (cases "those (map (\<lambda>x. P (time x)) h)")
  case None
  then show ?thesis by (simp add: sort_history_data_def)
next
  case (Some keys)
  then have "map (\<lambda>x. P (time x)) h = map Some keys" by (rule those_map_Some)
  then have "length keys = length h" by (metis length_map)
  then have "map snd (zip keys h) = h" by simp
  then have "mset (map snd (rev (sort_key fst (rev (zip keys h))))) = mset h"
    by (metis mset_map mset_rev mset_sort)
  with Some show ?thesis by (simp add: sort_history_data_def)
qed

lemma sort_history_data_sorted:
  assumes "\<forall>e\<in>set h. P (time e) \<noteq> None"
  shows "time_descending P (sort_history_data P h)"
proof -
  from assms have "\<forall>x\<in>set (map (\<lambda>x. P (time x)) h). x \<noteq> None" by simp
  then obtain keys where k: "those (map (\<lambda>x. P (time x)) h) = Some keys"
    using those_all_Some by blast
  then have m: "map (\<lambda>x. P (time x)) h = map Some keys" by (rule those_map_Some)
  have len: "length keys = length h" using m by (metis length_map)
  have pair: "P (time (snd p)) = Some (fst p)" if "p \<in> set (zip keys h)" for p
  proof -
    from that obtain i where i: "i < length h" "p = (keys ! i, h ! i)"
      using len by (auto simp: set_zip)
    have "map (\<lambda>x. P (time x)) h ! i = map Some keys ! i" using m by simp
    then show ?thesis using i len by simp
  qed
  let ?zs = "sort_key fst (rev (zip keys h))"
  have "sorted (map fst ?zs)" by (rule sorted_sort_key)
  then have "sorted_wrt (\<lambda>p q. fst p \<le> fst q) ?zs" by (simp add: sorted_wrt_map)
  then have "sorted_wrt (\<lambda>p q. fst q \<le> fst p) (rev ?zs)" by (simp add: sorted_wrt_rev)
  moreover have "set (rev ?zs) = set (zip keys h)" by simp
  ultimately have "sorted_wrt (\<lambda>p q. newer_or_equal P (snd p) (snd q)) (rev ?zs)"
    by (elim sorted_wrt_mono_rel [rotated]) (simp add: newer_or_equal_def pair)
  then show ?thesis
    using k by (simp add: sort_history_data_def time_descending_def sorted_wrt_map)
qed

lemma load_item_time: "load_item c = Some e \<Longrightarrow> time e \<noteq> []"
  by (auto simp: load_item_def split: if_splits)

lemma load_history_nonempty_time:
  "load_history_from_path f = (ok, msg, loaded) \<Longrightarrow> e \<in> set loaded \<Longrightarrow> time e \<noteq> []"
  by (auto simp: load_history_from_path_def Let_def List.map_filter_def load_item_time
      split: if_splits file_content.splits option.splits)

lemma load_history_failed:
  "load_history_from_path f = (False, msg, loaded) \<Longrightarrow> loaded = []"
  by (auto simp: load_history_from_path_def Let_def split: if_splits file_content.splits)

lemma merge_loaded_mset:
  "mset (fst (merge_loaded P base loaded h)) =
     mset h + mset (filter (\<lambda>e. time e \<notin> set (filter (\<lambda>t. t \<noteq> []) (map time h))) loaded)"
proof -
  let ?U = "filter (\<lambda>e. time e \<notin> set (filter (\<lambda>t. t \<noteq> []) (map time h))) loaded"
  show ?thesis
  proof (cases "loaded = []")
    case True
    then show ?thesis by (simp add: merge_loaded_def)
  next
    case False
    show ?thesis
    proof (cases "?U = []")
      case True
      have "fst (merge_loaded P base loaded h) = h"
        using False True unfolding merge_loaded_def Let_def by simp
      then show ?thesis using True by simp
    next
      case nonempty: False
      have "fst (merge_loaded P base loaded h) = sort_history_data P (h @ ?U)"
        using False nonempty unfolding merge_loaded_def Let_def by simp
      then show ?thesis by (simp add: sort_history_data_mset)
    qed
  qed
qed

lemma merge_loaded_sorted:
  assumes "\<forall>e\<in>set (h @ loaded). P (time e) \<noteq> None" and "time_descending P h"
  shows "time_descending P (fst (merge_loaded P base loaded h))"
proof -
  let ?U = "filter (\<lambda>e. time e \<notin> set (filter (\<lambda>t. t \<noteq> []) (map time h))) loaded"
  have "fst (merge_loaded P base loaded h) = h
        \<or> fst (merge_loaded P base loaded h) = sort_history_data P (h @ ?U)"
    unfolding merge_loaded_def Let_def by simp
  moreover have "time_descending P (sort_history_data P (h @ ?U))"
    by (rule sort_history_data_sorted) (use assms(1) in \<open>simp only: set_append set_filter; blast\<close>)
  ultimately show ?thesis using assms(2) by auto
qed

lemma load_history_ok_path:
  "load_history_from_path f = (True, msg, loaded) \<Longrightarrow> filepath f \<noteq> []"
  by (auto simp: load_history_from_path_def)

lemma prompt_and_load_cases:
  assumes "load_history_from_path f = (ok, msg, loaded)"
  shows "fst (prompt_and_load_history P f h) =
           (if ok then fst (merge_loaded P (basename f) loaded h) else h)"
proof (cases ok)
  case True
  then have "filepath f \<noteq> []" using assms load_history_ok_path [of f msg loaded] by simp
  then show ?thesis using assms True by (simp add: prompt_and_load_history_def)
next
  case False
  then show ?thesis using assms by (simp add: prompt_and_load_history_def)
qed

lemma prompt_and_load_mset:
  assumes "load_history_from_path f = (ok, msg, loaded)"
  shows "mset (fst (prompt_and_load_history P f h)) =
     mset h + mset (filter (\<lambda>e. time e \<notin> time ` set h) loaded)"
proof -
  have eq: "filter (\<lambda>e. time e \<notin> set (filter (\<lambda>t. t \<noteq> []) (map time h))) loaded
          = filter (\<lambda>e. time e \<notin> time ` set h) loaded"
    by (rule filter_cong) (use load_history_nonempty_time [OF assms] in auto)
  show ?thesis
  proof (cases ok)
    case True
    then have "fst (prompt_and_load_history P f h) = fst (merge_loaded P (basename f) loaded h)"
      by (simp add: prompt_and_load_cases [OF assms])
    then show ?thesis
      by (simp only: merge_loaded_mset eq)
  next
    case False
    then have "loaded = []" using assms load_history_failed [of f msg loaded] by simp
    then show ?thesis
      using False by (simp add: prompt_and_load_cases [OF assms])
  qed
qed

lemma prompt_and_load_sorted:
  assumes "load_history_from_path f = (ok, msg, loaded)"
    and "\<forall>e\<in>set (h @ loaded). P (time e) \<noteq> None" and "time_descending P h"
  shows "time_descending P (fst (prompt_and_load_history P f h))"
  using assms(2,3) by (simp add: prompt_and_load_cases [OF assms(1)] merge_loaded_sorted)

section \<open>Properties of the actions\<close>

lemma collect_valid_empty:
  "(\<forall>res\<in>set results. startswith res ERROR_PREFIX \<or> strip res = []) \<Longrightarrow> collect_valid results = []"
  by (auto simp: collect_valid_filter filter_empty_conv)

lemma placeholder_not_error: "\<not> startswith NO_VALID_REPHRASES ERROR_PREFIX"
  by (simp add: NO_VALID_REPHRASES_def ERROR_PREFIX_def startswith_def S_def)

text \<open>
  C2. When no result of the DeepL fan-out is valid (each is an error string or empty
  once stripped), the output is the placeholder
  \<open>[No valid rephrased alternatives found using multi-language translation.]\<close>, which
  is not an error string; one history entry with that placeholder as its rephrased
  field is added to the store, the store is handed to \<^verbatim>\<open>save_history_to_xml\<close>, and
  the rephrase box shows the placeholder without an error dialog.
\<close>

theorem C2_fanout_no_candidates:
  assumes "\<forall>res\<in>set results. startswith res ERROR_PREFIX \<or> strip res = []"
  shows "mset (history_data (process_deepl_results env current_provider results g)) =
           mset (history_data g) +
           {# \<lparr> time = now env, original = last_selected_text g,
                translated = (if last_translation g \<noteq> [] then last_translation g
                              else S ''[Previous translation missing]''),
                rephrased = NO_VALID_REPHRASES,
                provider = current_provider @ S '' (Rephrase)'',
                target_language = last_history_source_language g @ S '' -> ''
                                  @ last_history_target_language g \<rparr> #}
       \<and> trace (process_deepl_results env current_provider results g) =
           trace g @ SaveHistoryXml (history_data (process_deepl_results env current_provider results g))
             # (if window_exists env
                then [UpdateRephraseBox NO_VALID_REPHRASES, UpdateButtonStates False] else [])
       \<and> \<not> startswith NO_VALID_REPHRASES ERROR_PREFIX"
proof -
  have cv: "collect_valid results = []" using assms by (rule collect_valid_empty)
  have nonempty: "last_history_source_language g @ S '' -> '' @ last_history_target_language g \<noteq> []"
    by (simp add: S_def)
  show ?thesis
    using nonempty
    by (simp add: process_deepl_results_def Let_def cv format_rephrases_def emit_def
        update_rephrase_box_def placeholder_not_error sort_history_data_mset)
qed

theorem C2_witness:
  "mset (history_data (process_deepl_results example_env (S ''DeepL'') all_failed example_session)) =
     {# \<lparr> time = S ''2025-01-03 10:00:00'', original = S ''Hello'', translated = S ''Merhaba'',
          rephrased = NO_VALID_REPHRASES, provider = S ''DeepL (Rephrase)'',
          target_language = S ''English -> Turkish'' \<rparr> #}
   \<and> trace (process_deepl_results example_env (S ''DeepL'') all_failed example_session) =
       [SaveHistoryXml (history_data (process_deepl_results example_env (S ''DeepL'') all_failed example_session)),
        UpdateRephraseBox NO_VALID_REPHRASES, UpdateButtonStates False]"
proof -
  have h: "\<forall>res\<in>set all_failed. startswith res ERROR_PREFIX \<or> strip res = []"
    by (simp add: all_failed_def startswith_def)
  show ?thesis
    using C2_fanout_no_candidates [OF h, of example_env "S ''DeepL''" example_session]
    by (simp add: example_env_def example_session_def S_def)
qed

lemma get_deepl_source_code_cases:
  "get_deepl_source_code lang =
     (if get_deepl_target_code lang = S ''EN-GB'' \<or> get_deepl_target_code lang = S ''EN-US''
      then S ''EN''
      else if get_deepl_target_code lang = S ''PT-PT'' then S ''PT''
      else get_deepl_target_code lang)"
  by (simp add: get_deepl_source_code_def get_deepl_target_code_def Let_def)

text \<open>
  C3. For every pair of display languages, when step 1 of the two-hop rephrase returns
  a text that is not empty, the second call translates that text with
  \<^verbatim>\<open>source_lang\<close> the source code of the target display language (its table code,
  with \<open>EN-GB\<close> and \<open>EN-US\<close> collapsed to \<open>EN\<close> and \<open>PT-PT\<close> to \<open>PT\<close>) and
  \<^verbatim>\<open>target_lang\<close> the target code of the source display language (its table
  code as it stands); the source code is never one of the regional codes.
\<close>

theorem C3_two_hop_step2_codes:
  assumes "translator txt (get_deepl_source_code src) (get_deepl_target_code tgt) = TextResult t"
    and "t \<noteq> []"
  shows "snd (two_hop translator src tgt txt) =
           [TranslateText txt (get_deepl_source_code src) (get_deepl_target_code tgt),
            TranslateText t (get_deepl_source_code tgt) (get_deepl_target_code src)]
       \<and> get_deepl_target_code src = dict_get DeepL_languages src src
       \<and> get_deepl_source_code tgt =
           (if dict_get DeepL_languages tgt tgt \<in> set [S ''EN-GB'', S ''EN-US''] then S ''EN''
            else if dict_get DeepL_languages tgt tgt = S ''PT-PT'' then S ''PT''
            else dict_get DeepL_languages tgt tgt)
       \<and> get_deepl_source_code tgt \<notin> set [S ''EN-GB'', S ''EN-US'', S ''PT-PT'']"
proof -
  have tc: "get_deepl_target_code l = dict_get DeepL_languages l l" for l
    by (simp add: get_deepl_target_code_def supported_languages_def dict_get_def S_def)
  have ne: "S ''EN'' \<notin> set [S ''EN-GB'', S ''EN-US'', S ''PT-PT'']"
    "S ''PT'' \<notin> set [S ''EN-GB'', S ''EN-US'', S ''PT-PT'']"
    by (simp_all add: S_def)
  have sc: "get_deepl_source_code tgt \<notin> set [S ''EN-GB'', S ''EN-US'', S ''PT-PT'']"
    unfolding get_deepl_source_code_cases using ne by auto
  show ?thesis
    using assms sc by (simp add: two_hop_def Let_def get_deepl_source_code_cases tc)
qed

text \<open>
  C6. In the two-hop translate of DeepL: an empty text from step 1 gives the dictionary
  with \<open>[Translation Failed or Empty]\<close> and \<open>[Rephrasing skipped]\<close>, which is not an
  error result; and when step 1 gives a text that is not empty, the translated field
  is that text whatever step 2 does, and an empty or failed step 2 only puts a
  placeholder in the rephrased field.
\<close>

theorem C6_two_hop_degradation:
  fixes translator :: "pystr \<Rightarrow> pystr \<Rightarrow> pystr \<Rightarrow> deepl_reply" and src tgt input :: pystr
  defines "step1 \<equiv> translator input (get_deepl_source_code src) (get_deepl_target_code tgt)"
  defines "step2 \<equiv> \<lambda>t. translator t (get_deepl_source_code tgt) (get_deepl_target_code src)"
  shows "(step1 = TextResult [] \<longrightarrow>
            fst (two_hop translator src tgt input) =
              PyDict (S ''[Translation Failed or Empty]'') (S ''[Rephrasing skipped]'')
            \<and> \<not> is_error_result (fst (two_hop translator src tgt input)))
       \<and> (step1 = TextResult t \<and> t \<noteq> [] \<longrightarrow>
            \<not> is_error_result (fst (two_hop translator src tgt input))
            \<and> (\<exists>r. fst (two_hop translator src tgt input) = PyDict t r)
            \<and> (step2 t = TextResult [] \<longrightarrow>
                 fst (two_hop translator src tgt input) =
                   PyDict t (S ''[Rephrasing resulted in empty text]''))
            \<and> (\<forall>c type_name msg. step2 t = Raises c type_name msg \<longrightarrow>
                 fst (two_hop translator src tgt input) =
                   PyDict t (if is_deepl_exception c
                             then S ''[Rephrasing Error: '' @ type_name @ S '']''
                             else S ''[Unexpected Rephrasing Error]''))
            \<and> (\<forall>r. step2 t = TextResult r \<and> r \<noteq> [] \<longrightarrow>
                 fst (two_hop translator src tgt input) = PyDict t r))"
  unfolding step1_def step2_def
  by (auto simp: two_hop_def Let_def is_error_result_def split: deepl_reply.splits)

text \<open>
  C8. When \<^verbatim>\<open>last_selected_text\<close> is empty, \<^verbatim>\<open>rephrase_again\<close> shows the warning
  "No Text Found" and returns: the session is unchanged apart from that dialog in the
  trace, and no call to a provider is made.
\<close>

theorem C8_rephrase_without_source_text:
  assumes "last_selected_text g = []"
  shows "rephrase_again env g =
           g\<lparr>trace := trace g @
                [MessageBox ShowWarning (S ''No Text Found'')
                   (S ''Cannot rephrase because the source text is missing.'' @ NL
                    @ S ''Please perform a translation first.'')]\<rparr>
       \<and> filter is_network_call (trace (rephrase_again env g)) = filter is_network_call (trace g)"
  using assms by (simp add: rephrase_again_def emit_def is_network_call_def)

lemma py_replace_char: "py_replace [q] [] s = filter (\<lambda>c. c \<noteq> q) s"
  by (induction s) auto

lemma set_strip: "set (strip s) \<subseteq> set s"
  unfolding strip_def by (auto dest!: set_dropWhileD)

text \<open>
  C10. Under an LLM provider, when \<^verbatim>\<open>ask_ai\<close> returns a string that is not an
  error, the back-translation is computed from the stripped reply with every double
  quote (code point 34) removed, before the label is looked for; so the text handed on
  holds no double quote.
\<close>

theorem C10_back_translation_has_no_quote:
  assumes "prov \<noteq> S ''DeepL''"
    and "ask_ai_llm env (translate_to_source_prompt txt final_target) = Some raw"
    and "\<not> startswith raw ERROR_PREFIX"
  shows "34 \<notin> set (fst (back_api_call env prov final_target current txt))
       \<and> fst (back_api_call env prov final_target current txt) =
           (let cleaned = filter (\<lambda>c. c \<noteq> 34) (strip raw);
                kw = final_target @ S '' Translation:''
            in if startswith (py_lower env cleaned) (py_lower env kw)
               then strip (drop (length kw) cleaned) else cleaned)"
proof -
  let ?cleaned = "filter (\<lambda>c. c \<noteq> 34) (strip raw)"
  let ?kw = "final_target @ S '' Translation:''"
  have eq: "fst (back_api_call env prov final_target current txt) =
      (if startswith (py_lower env ?cleaned) (py_lower env ?kw)
       then strip (drop (length ?kw) ?cleaned) else ?cleaned)"
    using assms
    by (simp add: back_api_call_def Let_def clean_llm_back_translation_def py_replace_char)
  have "set (strip (drop (length ?kw) ?cleaned)) \<subseteq> set ?cleaned"
    using set_strip set_drop_subset by (rule subset_trans)
  moreover have "34 \<notin> set ?cleaned" by simp
  ultimately have "34 \<notin> set (fst (back_api_call env prov final_target current txt))"
    unfolding eq by auto
  then show ?thesis using eq by (simp add: Let_def)
qed

lemma remember_frame:
  "history_data (remember env t r rp rv g) = history_data g"
  "trace (remember env t r rp rv g) = trace g"
  "last_history_source_language (remember env t r rp rv g) = last_history_source_language g"
  "last_history_target_language (remember env t r rp rv g) = last_history_target_language g"
  by (simp_all add: remember_def Let_def split: prod.splits)

lemma remember_not_forward: "rp \<or> rv \<Longrightarrow> remember env t r rp rv g = g"
  by (auto simp: remember_def)

lemma update_result_error:
  "is_error_result r \<Longrightarrow>
   update_result env t r rp rv g =
     emit [MessageBox ShowError (S ''API Error'') (error_message r), UpdateButtonStates rv] g"
  by (simp add: update_result_def)

lemma update_result_success:
  assumes "\<not> is_error_result r"
  shows "mset (history_data (update_result env t r rp rv g)) =
           mset (history_data g) +
           {# \<lparr> time = now env,
                original = fst (history_fields env t r rp rv g),
                translated = fst (snd (history_fields env t r rp rv g)),
                rephrased = snd (snd (history_fields env t r rp rv g)),
                provider = var_get (api_provider_var env) (S ''N/A''),
                target_language = last_history_source_language g @ S '' -> ''
                                  @ last_history_target_language g \<rparr> #}"
    and "last_selected_text (update_result env t r rp rv g) =
           last_selected_text (remember env t r rp rv g)"
    and "last_translation (update_result env t r rp rv g) =
           last_translation (remember env t r rp rv g)"
  using assms
  by (simp_all add: update_result_def Let_def emit_def remember_frame sort_history_data_mset
      split: prod.splits)

lemma update_result_memory:
  "rp \<or> rv \<or> is_error_result r \<Longrightarrow>
   last_selected_text (update_result env t r rp rv g) = last_selected_text g
   \<and> last_translation (update_result env t r rp rv g) = last_translation g"
  by (cases "is_error_result r")
     (auto simp: update_result_error emit_def update_result_success remember_not_forward)

lemma process_deepl_results_frame:
  "last_selected_text (process_deepl_results env p results g) = last_selected_text g"
  "last_translation (process_deepl_results env p results g) = last_translation g"
  by (simp_all add: process_deepl_results_def Let_def emit_def update_rephrase_box_def)

lemma process_deepl_results_history:
  "\<exists>e. mset (history_data (process_deepl_results env p results g)) = mset (history_data g) + {#e#}"
  by (simp add: process_deepl_results_def Let_def emit_def update_rephrase_box_def
      sort_history_data_mset)

lemma rephrase_again_memory:
  "last_selected_text (rephrase_again env g) = last_selected_text g
   \<and> last_translation (rephrase_again env g) = last_translation g"
  by (simp add: rephrase_again_def Let_def emit_def process_deepl_results_frame
      update_result_memory split: option.splits)

lemma translate_to_source_memory:
  "last_selected_text (translate_to_source env g) = last_selected_text g
   \<and> last_translation (translate_to_source env g) = last_translation g"
  by (simp add: translate_to_source_def Let_def emit_def update_result_memory
      split: option.splits prod.splits)

lemma update_result_history_step:
  assumes "history_data g' = history_data g"
  shows "mset (history_data (update_result env t r rp rv g')) = mset (history_data g)
     \<or> (\<exists>e. mset (history_data (update_result env t r rp rv g')) = mset (history_data g) + {#e#})"
proof (cases "is_error_result r")
  case True
  then show ?thesis using assms by (simp add: update_result_error emit_def)
next
  case False
  then show ?thesis using assms update_result_success(1) [of r env t rp rv g'] by auto
qed

lemma process_deepl_results_history_step:
  assumes "history_data g' = history_data g"
  shows "mset (history_data (process_deepl_results env p results g')) = mset (history_data g)
     \<or> (\<exists>e. mset (history_data (process_deepl_results env p results g')) = mset (history_data g) + {#e#})"
  using process_deepl_results_history [of env p results g'] assms by auto

lemma run_action_history:
  "mset (history_data (run_action a env g)) = mset (history_data g)
   \<or> (\<exists>e. mset (history_data (run_action a env g)) = mset (history_data g) + {#e#})"
proof (cases a)
  case Translate
  then show ?thesis
    by (simp add: run_action_def run_translate_rephrase_def Let_def emit_def
        update_result_history_step [simplified] split: option.splits prod.splits)
next
  case TranslateBack
  then show ?thesis
    by (simp add: run_action_def translate_to_source_def Let_def emit_def
        update_result_history_step [simplified] split: option.splits prod.splits)
next
  case RephraseAgain
  then show ?thesis
    by (simp add: run_action_def rephrase_again_def Let_def emit_def
        update_result_history_step [simplified] process_deepl_results_history_step [simplified]
        split: option.splits prod.splits)
qed

text \<open>
  C4 as stated fails where it names TranslateBack, on success, as an action that updates
  the source text and the last translation: a back-translation of \<open>Selam\<close> that
  succeeds with \<open>Hi\<close> adds its history entry and leaves \<^verbatim>\<open>last_selected_text\<close> and
  \<^verbatim>\<open>last_translation\<close> at \<open>Hello\<close> and \<open>Merhaba\<close>. Branch A of \<^verbatim>\<open>update_result\<close>
  assigns neither; the source text is assigned only in branch C, as its comment says.
\<close>

theorem C4_translate_back_counterexample:
  "history_data (translate_to_source back_env example_session) =
     [\<lparr> time = S ''2025-01-03 10:00:00'', original = S ''Selam'', translated = S ''Hi'',
        rephrased = S ''[N/A for reverse translation]'', provider = S ''DeepL'',
        target_language = S ''Turkish -> English'' \<rparr>]
   \<and> last_selected_text example_session = S ''Hello''
   \<and> last_translation example_session = S ''Merhaba''
   \<and> last_selected_text (translate_to_source back_env example_session) = S ''Hello''
   \<and> last_translation (translate_to_source back_env example_session) = S ''Merhaba''"
proof -
  have h: "history_data (translate_to_source back_env example_session) =
     [\<lparr> time = S ''2025-01-03 10:00:00'', original = S ''Selam'', translated = S ''Hi'',
        rephrased = S ''[N/A for reverse translation]'', provider = S ''DeepL'',
        target_language = S ''Turkish -> English'' \<rparr>]"
    by (simp add: translate_to_source_def back_env_def example_env_def example_session_def
        Let_def var_get_def back_api_call_def update_result_def is_error_result_def
        history_fields_def remember_def py_str_def emit_def sort_history_data_def
        strip_def py_isspace_def startswith_def ERROR_PREFIX_def S_def digit2_def
        days_in_month_def)
  have m: "last_selected_text (translate_to_source back_env example_session) = S ''Hello''
     \<and> last_translation (translate_to_source back_env example_session) = S ''Merhaba''"
    using translate_to_source_memory [of back_env example_session]
    by (simp add: example_session_def)
  show ?thesis using h m by (simp add: example_session_def)
qed

text \<open>
  C4 (as amended). In \<^verbatim>\<open>update_result\<close>, an error result leaves the history, the source text
  \<^verbatim>\<open>last_selected_text\<close> and \<^verbatim>\<open>last_translation\<close> as they were; a result that is
  not an error adds exactly one history entry; \<^verbatim>\<open>last_selected_text\<close> or
  \<^verbatim>\<open>last_translation\<close> changes only for a forward translation that is not an error;
  no action other than Translate changes either of them, \<^verbatim>\<open>rephrase_again\<close> never
  changes \<^verbatim>\<open>last_selected_text\<close>, the fan-out adds exactly one entry, and every
  action leaves the history as it was or adds exactly one entry.
\<close>

theorem C4_outcome_frame:
  "(is_error_result r \<longrightarrow>
      history_data (update_result env t r rp rv g) = history_data g
      \<and> last_selected_text (update_result env t r rp rv g) = last_selected_text g
      \<and> last_translation (update_result env t r rp rv g) = last_translation g)
   \<and> (\<not> is_error_result r \<longrightarrow>
        (\<exists>e. mset (history_data (update_result env t r rp rv g)) = mset (history_data g) + {#e#}))
   \<and> (last_selected_text (update_result env t r rp rv g) \<noteq> last_selected_text g
        \<or> last_translation (update_result env t r rp rv g) \<noteq> last_translation g
        \<longrightarrow> \<not> rp \<and> \<not> rv \<and> \<not> is_error_result r)
   \<and> (a \<noteq> Translate \<longrightarrow>
        last_selected_text (run_action a env g) = last_selected_text g
        \<and> last_translation (run_action a env g) = last_translation g)
   \<and> last_selected_text (rephrase_again env g) = last_selected_text g
   \<and> (\<exists>e. mset (history_data (process_deepl_results env p results g)) = mset (history_data g) + {#e#})
   \<and> (mset (history_data (run_action a env g)) = mset (history_data g)
        \<or> (\<exists>e. mset (history_data (run_action a env g)) = mset (history_data g) + {#e#}))"
proof (intro conjI impI)
  assume "is_error_result r"
  then show "history_data (update_result env t r rp rv g) = history_data g"
    by (simp add: update_result_error emit_def)
next
  assume "is_error_result r"
  then show "last_selected_text (update_result env t r rp rv g) = last_selected_text g"
    by (simp add: update_result_memory)
next
  assume "is_error_result r"
  then show "last_translation (update_result env t r rp rv g) = last_translation g"
    by (simp add: update_result_memory)
next
  assume "\<not> is_error_result r"
  then show "\<exists>e. mset (history_data (update_result env t r rp rv g)) = mset (history_data g) + {#e#}"
    using update_result_success(1) by blast
next
  assume ch: "last_selected_text (update_result env t r rp rv g) \<noteq> last_selected_text g
        \<or> last_translation (update_result env t r rp rv g) \<noteq> last_translation g"
  show "\<not> rp" using ch update_result_memory by blast
  show "\<not> rv" using ch update_result_memory by blast
  show "\<not> is_error_result r" using ch update_result_memory by blast
next
  assume "a \<noteq> Translate"
  then show "last_selected_text (run_action a env g) = last_selected_text g"
    by (cases a) (simp_all add: run_action_def rephrase_again_memory translate_to_source_memory)
next
  assume "a \<noteq> Translate"
  then show "last_translation (run_action a env g) = last_translation g"
    by (cases a) (simp_all add: run_action_def rephrase_again_memory translate_to_source_memory)
next
  show "last_selected_text (rephrase_again env g) = last_selected_text g"
    by (simp add: rephrase_again_memory)
next
  show "\<exists>e. mset (history_data (process_deepl_results env p results g)) = mset (history_data g) + {#e#}"
    by (rule process_deepl_results_history)
next
  show "mset (history_data (run_action a env g)) = mset (history_data g)
        \<or> (\<exists>e. mset (history_data (run_action a env g)) = mset (history_data g) + {#e#})"
    by (rule run_action_history)
qed

lemma code_examples:
  "get_deepl_source_code (S ''English-US'') = S ''EN''"
  "get_deepl_target_code (S ''English-US'') = S ''EN-US''"
  "get_deepl_source_code (S ''Portuguese'') = S ''PT''"
  "get_deepl_target_code (S ''Portuguese'') = S ''PT-PT''"
  "get_deepl_source_code (S ''English'') = S ''EN''"
  "get_deepl_target_code (S ''English'') = S ''EN-GB''"
  "get_deepl_source_code (S ''Turkish'') = S ''TR''"
  "get_deepl_target_code (S ''Turkish'') = S ''TR''"
  by (simp_all add: get_deepl_source_code_def get_deepl_target_code_def supported_languages_def
      DeepL_languages_def dict_get_def Let_def S_def)

theorem C3_witness:
  "snd (two_hop echo_translator (S ''English-US'') (S ''Portuguese'') (S ''Hi'')) =
     [TranslateText (S ''Hi'') (S ''EN'') (S ''PT-PT''),
      TranslateText (S ''Hi!'') (S ''PT'') (S ''EN-US'')]"
proof -
  have h1: "echo_translator (S ''Hi'') (get_deepl_source_code (S ''English-US''))
              (get_deepl_target_code (S ''Portuguese'')) = TextResult (S ''Hi!'')"
    by (simp add: echo_translator_def S_def)
  have h2: "S ''Hi!'' \<noteq> []" by (simp add: S_def)
  show ?thesis
    using h1 h2
      C3_two_hop_step2_codes [of echo_translator "S ''Hi''" "S ''English-US''" "S ''Portuguese''"
        "S ''Hi!''"]
    by (simp add: code_examples)
qed

theorem C6_witness:
  "fst (two_hop empty_translator (S ''English'') (S ''Turkish'') (S ''Hello'')) =
     PyDict (S ''[Translation Failed or Empty]'') (S ''[Rephrasing skipped]'')
   \<and> fst (two_hop flaky_translator (S ''English'') (S ''Turkish'') (S ''Hello'')) =
     PyDict (S ''Merhaba'') (S ''[Rephrasing Error: QuotaExceededException]'')"
proof -
  have e1: "empty_translator (S ''Hello'') (get_deepl_source_code (S ''English''))
              (get_deepl_target_code (S ''Turkish'')) = TextResult []"
    by (simp add: empty_translator_def)
  have f1: "flaky_translator (S ''Hello'') (get_deepl_source_code (S ''English''))
              (get_deepl_target_code (S ''Turkish'')) = TextResult (S ''Merhaba'')
            \<and> S ''Merhaba'' \<noteq> []"
    by (simp add: flaky_translator_def code_examples) (simp add: S_def)
  have f2: "flaky_translator (S ''Merhaba'') (get_deepl_source_code (S ''Turkish''))
              (get_deepl_target_code (S ''English'')) =
              Raises DeepLException (S ''QuotaExceededException'') (S ''Quota exceeded'')"
    by (simp add: flaky_translator_def code_examples) (simp add: S_def)
  show ?thesis
    using e1 f1 f2
      C6_two_hop_degradation [of empty_translator "S ''Hello''" "S ''English''" "S ''Turkish''"]
      C6_two_hop_degradation [of flaky_translator "S ''Hello''" "S ''English''" "S ''Turkish''"
        "S ''Merhaba''"]
    by (simp add: is_deepl_exception_def) (simp add: S_def)
qed

theorem C8_witness:
  "rephrase_again example_env (example_session\<lparr>last_selected_text := []\<rparr>) =
     example_session\<lparr>last_selected_text := [],
       trace := [MessageBox ShowWarning (S ''No Text Found'')
                   (S ''Cannot rephrase because the source text is missing.'' @ NL
                    @ S ''Please perform a translation first.'')]\<rparr>"
proof -
  have h: "last_selected_text (example_session\<lparr>last_selected_text := []\<rparr>) = []" by simp
  show ?thesis
    using C8_rephrase_without_source_text [OF h, of example_env]
    by (simp add: example_session_def)
qed

theorem C10_witness:
  "fst (back_api_call llm_env (S ''OpenAI'') (S ''English'') (S ''Turkish'') (S ''Merhaba''))
     = S ''say hi''"
proof -
  have h1: "S ''OpenAI'' \<noteq> S ''DeepL''" by (simp add: S_def)
  have h2: "ask_ai_llm llm_env (translate_to_source_prompt (S ''Merhaba'') (S ''English''))
              = Some quoted_reply"
    by (simp add: llm_env_def)
  have h3: "\<not> startswith quoted_reply ERROR_PREFIX"
    by (simp add: quoted_reply_def startswith_def ERROR_PREFIX_def S_def)
  show ?thesis
    using C10_back_translation_has_no_quote [OF h1 h2 h3, of "S ''Turkish''"]
    by (simp add: quoted_reply_def llm_env_def ascii_lower_def strip_def py_isspace_def
        startswith_def S_def Let_def)
qed

theorem C4_witness:
  "history_data (update_result example_env (S ''Hi'') (PyStr (ERROR_PREFIX @ S ''boom'')) False False
      example_session) = history_data example_session
   \<and> last_selected_text (update_result example_env (S ''Hi'') (PyStr (ERROR_PREFIX @ S ''boom''))
        False False example_session) = S ''Hello''
   \<and> last_selected_text (update_result example_env (S ''Hi'') (PyDict (S ''Selam'') (S ''Hey''))
        False False example_session) = S ''Hi''
   \<and> (\<exists>e. mset (history_data (update_result example_env (S ''Hi'') (PyDict (S ''Selam'') (S ''Hey''))
        False False example_session)) = {#e#})
   \<and> last_selected_text (run_action RephraseAgain example_env example_session) = S ''Hello''"
proof -
  have err: "is_error_result (PyStr (ERROR_PREFIX @ S ''boom''))"
    by (simp add: is_error_result_def startswith_def)
  have ok: "\<not> is_error_result (PyDict (S ''Selam'') (S ''Hey''))"
    by (simp add: is_error_result_def)
  have changed: "last_selected_text (update_result example_env (S ''Hi'')
      (PyDict (S ''Selam'') (S ''Hey'')) False False example_session) = S ''Hi''"
    unfolding update_result_success(2) [OF ok]
    by (simp add: remember_def forward_fields_def Let_def example_env_def var_get_def
        startswith_def S_def)
  have ra: "RephraseAgain \<noteq> Translate" by simp
  show ?thesis
    using err ok changed ra
      C4_outcome_frame [of "PyStr (ERROR_PREFIX @ S ''boom'')" example_env "S ''Hi''" False False
        example_session RephraseAgain]
      C4_outcome_frame [of "PyDict (S ''Selam'') (S ''Hey'')" example_env "S ''Hi''" False False
        example_session RephraseAgain]
    by (simp add: example_session_def)
qed

section \<open>Properties of the history merge\<close>

lemma load_mk_item: "t \<noteq> [] \<Longrightarrow> load_item (snd (mk_item t tr)) = Some (mk_entry t tr)"
  by (simp add: load_item_def mk_item_def mk_entry_def field_text_def S_def)

lemma load_import_file2:
  "t \<noteq> [] \<Longrightarrow> u \<noteq> [] \<Longrightarrow>
   load_history_from_path (import_file [mk_item t a, mk_item u b]) =
     (True, S ''Read 2 valid entries from'' @ NL @ S ''import.xml'', [mk_entry t a, mk_entry u b])"
  by (simp add: load_history_from_path_def import_file_def List.map_filter_def load_mk_item
      Let_def)
     (simp add: mk_item_def str_nat.simps S_def)

lemma times_parse:
  "strptime_padded T1 = Some (2025, 1, 1, 0, 0, 0)"
  "strptime_padded T2 = Some (2025, 1, 2, 0, 0, 0)"
  "strptime_padded T3 = Some (2025, 1, 3, 0, 0, 0)"
  "strptime_padded (S ''yesterday'') = None"
  by (simp_all add: T1_def T2_def T3_def S_def digit2_def days_in_month_def)

lemma times_nonempty: "T1 \<noteq> []" "T2 \<noteq> []" "T3 \<noteq> []" "S ''yesterday'' \<noteq> []"
  by (simp_all add: T1_def T2_def T3_def S_def)

lemma times_distinct: "T1 \<noteq> T2" "T1 \<noteq> T3" "T2 \<noteq> T3" "T2 \<noteq> T1" "T3 \<noteq> T1" "T3 \<noteq> T2"
  "S ''yesterday'' \<noteq> T1" "S ''yesterday'' \<noteq> T2"
  by (simp_all add: T1_def T2_def T3_def S_def)

lemma example_merge:
  "fst (prompt_and_load_history strptime_padded
          (import_file [mk_item T1 (S ''one''), mk_item T3 (S ''uc'')]) example_store) =
     [mk_entry T3 (S ''uc''), mk_entry T2 (S ''iki''), mk_entry T1 (S ''bir'')]"
  by (simp add: prompt_and_load_cases [OF load_import_file2] times_nonempty merge_loaded_def
      example_store_def Let_def times_distinct sort_history_data_def times_parse)
     (simp add: mk_entry_def times_parse times_distinct times_nonempty)

lemma example_bad_merge:
  "fst (prompt_and_load_history strptime_padded
          (import_file [mk_item (S ''yesterday'') (S ''dun''), mk_item T3 (S ''uc'')]) example_store) =
     [mk_entry T2 (S ''iki''), mk_entry T1 (S ''bir''), mk_entry (S ''yesterday'') (S ''dun''),
      mk_entry T3 (S ''uc'')]"
  by (simp add: prompt_and_load_cases [OF load_import_file2] times_nonempty merge_loaded_def
      example_store_def Let_def times_distinct sort_history_data_def times_parse)
     (simp add: mk_entry_def times_parse times_distinct times_nonempty)

text \<open>
  C7 as stated fails: a file entry whose \<open>time\<close> is not a timestamp makes
  \<^verbatim>\<open>strptime\<close> raise, \<^verbatim>\<open>sort_history_data\<close> catches the error and leaves the list as
  extended, and an entry of 1 January then stands before one of 3 January.
\<close>

theorem C7_merge_sorted_counterexample:
  "fst (prompt_and_load_history strptime_padded
          (import_file [mk_item (S ''yesterday'') (S ''dun''), mk_item T3 (S ''uc'')]) example_store) =
     [mk_entry T2 (S ''iki''), mk_entry T1 (S ''bir''), mk_entry (S ''yesterday'') (S ''dun''),
      mk_entry T3 (S ''uc'')]
   \<and> \<not> time_descending strptime_padded
        (fst (prompt_and_load_history strptime_padded
          (import_file [mk_item (S ''yesterday'') (S ''dun''), mk_item T3 (S ''uc'')]) example_store))"
  unfolding example_bad_merge
  by (simp add: time_descending_def newer_or_equal_def mk_entry_def times_parse)

text \<open>
  C7 (as amended). After \<^verbatim>\<open>prompt_and_load_history\<close> the store holds its old
  entries and, of the entries read from the file, exactly those whose \<open>time\<close> no old
  entry has. When every \<open>time\<close> of the store and of the file parses as a timestamp and
  the store was sorted newest first, the store is sorted newest first afterwards; so is
  the store after an entry is appended and sorted, when every \<open>time\<close> parses.
\<close>

theorem C7_merge_union_sorted_when_times_parse:
  assumes "load_history_from_path f = (ok, msg, loaded)"
  shows "mset (fst (prompt_and_load_history P f h)) =
           mset h + mset (filter (\<lambda>e. time e \<notin> time ` set h) loaded)
       \<and> ((\<forall>e\<in>set (h @ loaded). P (time e) \<noteq> None) \<and> time_descending P h \<longrightarrow>
            time_descending P (fst (prompt_and_load_history P f h)))
       \<and> ((\<forall>e\<in>set (h @ [added]). P (time e) \<noteq> None) \<longrightarrow>
            time_descending P (sort_history_data P (h @ [added])))"
  using prompt_and_load_mset [OF assms] prompt_and_load_sorted [OF assms]
    sort_history_data_sorted [of "h @ [added]" P]
  by blast

theorem C7_witness:
  "fst (prompt_and_load_history strptime_padded
          (import_file [mk_item T1 (S ''one''), mk_item T3 (S ''uc'')]) example_store) =
     [mk_entry T3 (S ''uc''), mk_entry T2 (S ''iki''), mk_entry T1 (S ''bir'')]
   \<and> time_descending strptime_padded
        (fst (prompt_and_load_history strptime_padded
          (import_file [mk_item T1 (S ''one''), mk_item T3 (S ''uc'')]) example_store))
   \<and> time_descending strptime_padded
        (sort_history_data strptime_padded (example_store @ [mk_entry T3 (S ''uc'')]))"
proof -
  have parse: "\<forall>e\<in>set (example_store @ [mk_entry T1 (S ''one''), mk_entry T3 (S ''uc'')]).
      strptime_padded (time e) \<noteq> None"
    by (simp add: example_store_def mk_entry_def times_parse)
  have parse1: "\<forall>e\<in>set (example_store @ [mk_entry T3 (S ''uc'')]).
      strptime_padded (time e) \<noteq> None"
    by (simp add: example_store_def mk_entry_def times_parse)
  have sorted: "time_descending strptime_padded example_store"
    by (simp add: time_descending_def newer_or_equal_def example_store_def mk_entry_def
        times_parse)
  show ?thesis
    using parse parse1 sorted example_merge
      C7_merge_union_sorted_when_times_parse
        [OF load_import_file2 [OF times_nonempty(1) times_nonempty(3)],
         where P = strptime_padded and h = example_store and added = "mk_entry T3 (S ''uc'')"
           and ?a1 = "S ''one''" and ?b1 = "S ''uc''"]
    by simp
qed

text \<open>
  C9. \<^verbatim>\<open>prompt_and_load_history\<close> keeps every entry of the store, and an entry whose
  \<open>time\<close> is the \<open>time\<close> of an entry of the store occurs in the result exactly as often
  as it did in the store: an imported entry with such a \<open>time\<close> is dropped whatever its
  other fields are, and no entry of the store is replaced.
\<close>

theorem C9_import_never_overwrites:
  "mset h \<subseteq># mset (fst (prompt_and_load_history P f h))
   \<and> (time x \<in> time ` set h \<longrightarrow>
        count (mset (fst (prompt_and_load_history P f h))) x = count (mset h) x)"
proof -
  obtain ok msg loaded where l: "load_history_from_path f = (ok, msg, loaded)"
    by (cases "load_history_from_path f") auto
  have m: "mset (fst (prompt_and_load_history P f h)) =
           mset h + mset (filter (\<lambda>e. time e \<notin> time ` set h) loaded)"
    by (rule prompt_and_load_mset [OF l])
  have "time x \<in> time ` set h \<Longrightarrow> count (mset (filter (\<lambda>e. time e \<notin> time ` set h) loaded)) x = 0"
    by (simp add: count_eq_zero_iff)
  then show ?thesis unfolding m by simp
qed

theorem C9_witness:
  "time (mk_entry T1 (S ''one'')) \<in> time ` set example_store
   \<and> count (mset (fst (prompt_and_load_history strptime_padded
          (import_file [mk_item T1 (S ''one''), mk_item T3 (S ''uc'')]) example_store)))
        (mk_entry T1 (S ''one'')) = 0
   \<and> count (mset (fst (prompt_and_load_history strptime_padded
          (import_file [mk_item T1 (S ''one''), mk_item T3 (S ''uc'')]) example_store)))
        (mk_entry T1 (S ''bir'')) = 1"
proof -
  have h: "time (mk_entry T1 (S ''one'')) \<in> time ` set example_store"
    by (simp add: example_store_def mk_entry_def)
  have c0: "count (mset example_store) (mk_entry T1 (S ''one'')) = 0"
    by (simp add: example_store_def mk_entry_def S_def)
  have c1: "count (mset example_store) (mk_entry T1 (S ''bir'')) = 1"
    by (simp add: example_store_def mk_entry_def times_distinct)
  have h1: "time (mk_entry T1 (S ''bir'')) \<in> time ` set example_store"
    by (simp add: example_store_def mk_entry_def)
  show ?thesis
    using h h1 c0 c1
      C9_import_never_overwrites [of example_store strptime_padded
        "import_file [mk_item T1 (S ''one''), mk_item T3 (S ''uc'')]" "mk_entry T1 (S ''one'')"]
      C9_import_never_overwrites [of example_store strptime_padded
        "import_file [mk_item T1 (S ''one''), mk_item T3 (S ''uc'')]" "mk_entry T1 (S ''bir'')"]
    by simp
qed

section \<open>Properties of the response parser\<close>

lemma parse_line_step:
  "parse_line tr rep st line = (if strip line = [] then st else parse_step tr rep st (strip line))"
  by (simp add: parse_line_def parse_step_def Let_def)

lemma foldl_parse_line:
  "foldl (parse_line tr rep) st lines =
   foldl (parse_step tr rep) st (filter (\<lambda>l. l \<noteq> []) (map strip lines))"
  by (induction lines arbitrary: st) (simp_all add: parse_line_step)

lemma before_label:
  "\<not> found_tr st \<Longrightarrow> cur_section st = SecNone \<Longrightarrow> \<forall>l\<in>set pre. \<not> startswith l tr \<Longrightarrow>
   foldl (parse_step tr rep) st pre = st"
  by (induction pre) (simp_all add: parse_step_def)

lemma in_translation:
  "found_tr st \<Longrightarrow> \<not> found_rep st \<Longrightarrow> cur_section st = SecTrans \<Longrightarrow>
   \<forall>l\<in>set mid. \<not> startswith l rep \<Longrightarrow>
   foldl (parse_step tr rep) st mid = st\<lparr>trans_parts := trans_parts st @ mid\<rparr>"
  by (induction mid arbitrary: st) (simp_all add: parse_step_def)

lemma in_rephrase:
  "found_tr st \<Longrightarrow> found_rep st \<Longrightarrow> cur_section st = SecRep \<Longrightarrow>
   foldl (parse_step tr rep) st post = st\<lparr>rep_parts := rep_parts st @ post\<rparr>"
  by (induction post arbitrary: st) (simp_all add: parse_step_def)

lemma parse_init_fields: "\<not> found_tr parse_init" "\<not> found_rep parse_init"
  by (simp_all add: parse_init_def)

lemma parse_no_label:
  assumes "\<forall>l\<in>set ls. \<not> startswith l tr"
  shows "foldl (parse_step tr rep) parse_init ls = parse_init"
  using assms by (intro before_label) (simp_all add: parse_init_def)

lemma parse_translation_only:
  assumes "\<forall>l\<in>set pre. \<not> startswith l tr" and "startswith t tr"
    and "\<forall>l\<in>set rest. \<not> startswith l rep"
  shows "foldl (parse_step tr rep) parse_init (pre @ t # rest) =
           \<lparr>found_tr = True, found_rep = False, cur_section = SecTrans,
            trans_parts = strip (drop (length tr) t) # rest, rep_parts = []\<rparr>"
proof -
  have "foldl (parse_step tr rep) parse_init pre = parse_init"
    using assms(1) by (rule parse_no_label)
  moreover have "parse_step tr rep parse_init t =
      \<lparr>found_tr = True, found_rep = False, cur_section = SecTrans,
       trans_parts = [strip (drop (length tr) t)], rep_parts = []\<rparr>"
    using assms(2) by (simp add: parse_step_def parse_init_def)
  ultimately show ?thesis
    using assms(3) by (simp add: in_translation)
qed

lemma parse_both:
  assumes "\<forall>l\<in>set pre. \<not> startswith l tr" and "startswith t tr"
    and "\<forall>l\<in>set mid. \<not> startswith l rep" and "startswith r rep"
  shows "foldl (parse_step tr rep) parse_init (pre @ t # mid @ r # post) =
           \<lparr>found_tr = True, found_rep = True, cur_section = SecRep,
            trans_parts = strip (drop (length tr) t) # mid,
            rep_parts = strip (drop (length rep) r) # post\<rparr>"
proof -
  have "foldl (parse_step tr rep) parse_init (pre @ t # mid) =
           \<lparr>found_tr = True, found_rep = False, cur_section = SecTrans,
            trans_parts = strip (drop (length tr) t) # mid, rep_parts = []\<rparr>"
    using assms(1,2,3) by (rule parse_translation_only)
  then have "foldl (parse_step tr rep) parse_init (pre @ t # mid @ [r]) =
           \<lparr>found_tr = True, found_rep = True, cur_section = SecRep,
            trans_parts = strip (drop (length tr) t) # mid,
            rep_parts = [strip (drop (length rep) r)]\<rparr>"
    using assms(4) 
    by (simp add: parse_step_def flip: append_Cons append_assoc)
  then have "foldl (parse_step tr rep) parse_init ((pre @ t # mid @ [r]) @ post) =
           \<lparr>found_tr = True, found_rep = True, cur_section = SecRep,
            trans_parts = strip (drop (length tr) t) # mid,
            rep_parts = strip (drop (length rep) r) # post\<rparr>"
    unfolding foldl_append by (simp add: in_rephrase)
  then show ?thesis by simp
qed

lemma parse_llm_response_state:
  "parse_llm_response tgt src full_result =
     (let st = foldl (parse_step (tgt @ S '' Translation:'') (src @ S '' Rephrased:''))
                 parse_init (stripped_lines full_result)
      in (if found_tr st then strip (join NL (trans_parts st)) else TRANSLATION_NOT_FOUND,
          if found_rep st then strip (join NL (rep_parts st)) else REPHRASING_NOT_FOUND))"
  by (simp add: parse_llm_response_def Let_def foldl_parse_line stripped_lines_def)

text \<open>
  C5 (as amended). Take the lines of the stripped reply, each stripped, without the
  empty ones. If none starts with the translation label, both fields are their
  not-found sentinels, which are not empty. Otherwise the first line that starts with
  the translation label opens the translation section with the stripped rest of that
  line; if no later line starts with the rephrase label, every later line belongs to the
  translation and the rephrased field is its sentinel; otherwise the first later line
  that starts with the rephrase label opens the rephrase section with the stripped rest
  of that line, the lines between the two belong to the translation and the lines after
  belong to the rephrasing. Each field is its lines, stripped, joined by newlines and
  stripped. Lines before the translation label are dropped.
\<close>

theorem C5_dual_section_parser:
  assumes "ls = stripped_lines full_result"
    and "tr = tgt @ S '' Translation:''" and "rep = src @ S '' Rephrased:''"
  shows "((\<forall>l\<in>set ls. \<not> startswith l tr) \<longrightarrow>
            parse_llm_response tgt src full_result = (TRANSLATION_NOT_FOUND, REPHRASING_NOT_FOUND))
       \<and> (\<forall>pre t rest.
            ls = pre @ t # rest \<and> (\<forall>l\<in>set pre. \<not> startswith l tr) \<and> startswith t tr
            \<and> (\<forall>l\<in>set rest. \<not> startswith l rep) \<longrightarrow>
            parse_llm_response tgt src full_result =
              (strip (join NL (strip (drop (length tr) t) # rest)), REPHRASING_NOT_FOUND))
       \<and> (\<forall>pre t mid r post.
            ls = pre @ t # mid @ r # post \<and> (\<forall>l\<in>set pre. \<not> startswith l tr) \<and> startswith t tr
            \<and> (\<forall>l\<in>set mid. \<not> startswith l rep) \<and> startswith r rep \<longrightarrow>
            parse_llm_response tgt src full_result =
              (strip (join NL (strip (drop (length tr) t) # mid)),
               strip (join NL (strip (drop (length rep) r) # post))))
       \<and> TRANSLATION_NOT_FOUND \<noteq> [] \<and> REPHRASING_NOT_FOUND \<noteq> []"
proof (intro conjI allI impI)
  assume "\<forall>l\<in>set ls. \<not> startswith l tr"
  then show "parse_llm_response tgt src full_result = (TRANSLATION_NOT_FOUND, REPHRASING_NOT_FOUND)"
    unfolding parse_llm_response_state assms(1) [symmetric] assms(2) [symmetric]
      assms(3) [symmetric]
    by (simp add: parse_no_label parse_init_fields)
next
  fix pre t rest
  assume "ls = pre @ t # rest \<and> (\<forall>l\<in>set pre. \<not> startswith l tr) \<and> startswith t tr
            \<and> (\<forall>l\<in>set rest. \<not> startswith l rep)"
  then have "foldl (parse_step tr rep) parse_init ls =
           \<lparr>found_tr = True, found_rep = False, cur_section = SecTrans,
            trans_parts = strip (drop (length tr) t) # rest, rep_parts = []\<rparr>"
    using parse_translation_only [of pre tr t rest rep] by blast
  then show "parse_llm_response tgt src full_result =
              (strip (join NL (strip (drop (length tr) t) # rest)), REPHRASING_NOT_FOUND)"
    unfolding parse_llm_response_state assms(1) [symmetric] assms(2) [symmetric]
      assms(3) [symmetric]
    by simp
next
  fix pre t mid r post
  assume "ls = pre @ t # mid @ r # post \<and> (\<forall>l\<in>set pre. \<not> startswith l tr) \<and> startswith t tr
            \<and> (\<forall>l\<in>set mid. \<not> startswith l rep) \<and> startswith r rep"
  then have "foldl (parse_step tr rep) parse_init ls =
           \<lparr>found_tr = True, found_rep = True, cur_section = SecRep,
            trans_parts = strip (drop (length tr) t) # mid,
            rep_parts = strip (drop (length rep) r) # post\<rparr>"
    using parse_both [of pre tr t mid rep r post] by blast
  then show "parse_llm_response tgt src full_result =
              (strip (join NL (strip (drop (length tr) t) # mid)),
               strip (join NL (strip (drop (length rep) r) # post)))"
    unfolding parse_llm_response_state assms(1) [symmetric] assms(2) [symmetric]
      assms(3) [symmetric]
    by simp
next
  show "TRANSLATION_NOT_FOUND \<noteq> []" by (simp add: TRANSLATION_NOT_FOUND_def S_def)
  show "REPHRASING_NOT_FOUND \<noteq> []" by (simp add: REPHRASING_NOT_FOUND_def S_def)
qed

lemma example_lines:
  "stripped_lines reply_both = [S ''German Translation: Hallo'', S ''English Rephrased: Hi there'']"
  "stripped_lines reply_translation_only = [S ''Sure!'', S ''German Translation: Hallo'']"
  "stripped_lines (S ''Hello'') = [S ''Hello'']"
  by (simp_all add: stripped_lines_def reply_both_def reply_translation_only_def strip_def
      py_isspace_def S_def NL_def)

text \<open>
  C5 as stated fails on "appended verbatim": a continuation line is appended without
  its leading and trailing whitespace, so the indentation of \<open>  Tag\<close> is lost.
\<close>

theorem C5_verbatim_counterexample:
  "fst (parse_llm_response (S ''German'') (S ''English'') reply_indented)
     = S ''Guten'' @ NL @ S ''Tag''
   \<and> fst (parse_llm_response (S ''German'') (S ''English'') reply_indented)
     \<noteq> S ''Guten'' @ NL @ S ''  Tag''"
  by (simp add: parse_llm_response_def reply_indented_def Let_def parse_line_def parse_init_def
      strip_def py_isspace_def startswith_def S_def NL_def)

theorem C5_witness:
  "parse_llm_response (S ''German'') (S ''English'') (S ''Hello'')
     = (TRANSLATION_NOT_FOUND, REPHRASING_NOT_FOUND)
   \<and> parse_llm_response (S ''German'') (S ''English'') reply_translation_only
     = (S ''Hallo'', REPHRASING_NOT_FOUND)
   \<and> parse_llm_response (S ''German'') (S ''English'') reply_both
     = (S ''Hallo'', S ''Hi there'')"
proof -
  note th = C5_dual_section_parser [OF refl refl refl, of _ "S ''German''" "S ''English''"]
  have none: "(\<forall>l\<in>set (stripped_lines (S ''Hello'')).
                 \<not> startswith l (S ''German'' @ S '' Translation:'')) \<longrightarrow>
      parse_llm_response (S ''German'') (S ''English'') (S ''Hello'')
        = (TRANSLATION_NOT_FOUND, REPHRASING_NOT_FOUND)"
    using th [of "S ''Hello''"] by blast
  have one: "stripped_lines reply_translation_only = [S ''Sure!''] @ S ''German Translation: Hallo'' # []
        \<and> (\<forall>l\<in>set [S ''Sure!'']. \<not> startswith l (S ''German'' @ S '' Translation:''))
        \<and> startswith (S ''German Translation: Hallo'') (S ''German'' @ S '' Translation:'')
        \<and> (\<forall>l\<in>set []. \<not> startswith l (S ''English'' @ S '' Rephrased:'')) \<longrightarrow>
      parse_llm_response (S ''German'') (S ''English'') reply_translation_only =
        (strip (join NL (strip (drop (length (S ''German'' @ S '' Translation:''))
                                 (S ''German Translation: Hallo'')) # [])),
         REPHRASING_NOT_FOUND)"
    using th [of reply_translation_only] by blast
  have both: "stripped_lines reply_both =
          [] @ S ''German Translation: Hallo'' # [] @ S ''English Rephrased: Hi there'' # []
        \<and> (\<forall>l\<in>set []. \<not> startswith l (S ''German'' @ S '' Translation:''))
        \<and> startswith (S ''German Translation: Hallo'') (S ''German'' @ S '' Translation:'')
        \<and> (\<forall>l\<in>set []. \<not> startswith l (S ''English'' @ S '' Rephrased:''))
        \<and> startswith (S ''English Rephrased: Hi there'') (S ''English'' @ S '' Rephrased:'') \<longrightarrow>
      parse_llm_response (S ''German'') (S ''English'') reply_both =
        (strip (join NL (strip (drop (length (S ''German'' @ S '' Translation:''))
                                 (S ''German Translation: Hallo'')) # [])),
         strip (join NL (strip (drop (length (S ''English'' @ S '' Rephrased:''))
                                 (S ''English Rephrased: Hi there'')) # [])))"
    using th [of reply_both] by blast
  show ?thesis
    using none one both
    by (simp add: example_lines) (simp add: startswith_def strip_def py_isspace_def S_def)
qed

end
